theory Spec2Isabelle
  imports Complex_Main
begin

text \<open>
  The browser client of the stock scanner: the script \<open>app/static/js/main.js\<close>, which
  keeps a push channel to the server, gathers the streamed narrative, reconciles reports
  into the page and guards submissions. Line numbers are those of that file unless the
  older copy \<open>app/static/main.js\<close> is named.
\<close>

section \<open>Strings, numbers and event payloads\<close>

text \<open>
  A JavaScript string is a sequence of UTF-16 code units. Element ids and property names
  are plain ASCII and are kept as HOL strings; every displayed text is a list of code
  units, so that the literals of the source and \<open>String.prototype.trim\<close> mean what they
  mean in the browser.
\<close>

type_synonym jsstring = "nat list"

definition str :: "string \<Rightarrow> jsstring" where
  "str s = map of_char s"

text \<open>White space and line terminators of ECMAScript, the characters \<open>trim\<close> strips.\<close>

definition js_white :: "nat \<Rightarrow> bool" where
  "js_white c \<longleftrightarrow>
     c \<in> {0x9, 0xA, 0xB, 0xC, 0xD, 0x20, 0xA0, 0x1680, 0x2028, 0x2029, 0x202F, 0x205F, 0x3000, 0xFEFF}
     \<or> (0x2000 \<le> c \<and> c \<le> 0x200A)"

definition trim :: "jsstring \<Rightarrow> jsstring" where
  "trim s = rev (dropWhile js_white (rev (dropWhile js_white s)))"

text \<open>Decimal notation of an integer, as a template literal prints a slot index.\<close>

definition digit :: "nat \<Rightarrow> char" where
  "digit d = char_of (48 + d)"

fun digits :: "nat \<Rightarrow> string" where
  "digits n = (if n < 10 then [digit n] else digits (n div 10) @ [digit (n mod 10)])"

declare digits.simps [simp del]

definition dec :: "int \<Rightarrow> string" where
  "dec i = (if i < 0 then CHR ''-'' # digits (nat (- i)) else digits (nat i))"

text \<open>
  A JavaScript number. Arithmetic on doubles and the printing of numbers are not part of
  the model: they are operations of the environment below.
\<close>

datatype jsnum = NaN | Fin rat | PosInf | NegInf

fun num_truthy :: "jsnum \<Rightarrow> bool" where
  "num_truthy NaN = False"
| "num_truthy (Fin r) = (r \<noteq> 0)"
| "num_truthy PosInf = True"
| "num_truthy NegInf = True"

fun num_gt0 :: "jsnum \<Rightarrow> bool" where
  "num_gt0 NaN = False"
| "num_gt0 (Fin r) = (0 < r)"
| "num_gt0 PosInf = True"
| "num_gt0 NegInf = False"

text \<open>
  A value decoded by \<open>JSON.parse\<close>, with \<open>JUndef\<close> for \<open>undefined\<close> (a missing
  property, a missing payload). An object is the list of its properties.
\<close>

datatype json =
    JUndef
  | JNull
  | JBool bool
  | JNum jsnum
  | JStr jsstring
  | JArr "json list"
  | JObj "(string \<times> json) list"

fun truthy :: "json \<Rightarrow> bool" where
  "truthy JUndef = False"
| "truthy JNull = False"
| "truthy (JBool b) = b"
| "truthy (JNum n) = num_truthy n"
| "truthy (JStr s) = (s \<noteq> [])"
| "truthy (JArr xs) = True"
| "truthy (JObj kvs) = True"

text \<open>
  Property access \<open>v.k\<close>: \<open>None\<close> is the TypeError of reading a property of
  \<open>undefined\<close> or \<open>null\<close>. The properties read by the client are never own
  properties of a string, a number, a boolean or an array.
\<close>

fun field :: "json \<Rightarrow> string \<Rightarrow> json option" where
  "field JUndef k = None"
| "field JNull k = None"
| "field (JObj kvs) k = Some (case map_of kvs k of Some v \<Rightarrow> v | None \<Rightarrow> JUndef)"
| "field v k = Some JUndef"

text \<open>Optional chaining \<open>r.a?.b\<close>: only \<open>r\<close> itself can make it throw.\<close>

definition chain :: "json \<Rightarrow> string \<Rightarrow> string \<Rightarrow> json option" where
  "chain r a b =
     (case field r a of
        None \<Rightarrow> None
      | Some JUndef \<Rightarrow> Some JUndef
      | Some JNull \<Rightarrow> Some JUndef
      | Some v \<Rightarrow> field v b)"

text \<open>The access \<open>r.a.b\<close> without the question mark, as the batch card writes it.\<close>

definition path :: "json \<Rightarrow> string \<Rightarrow> string \<Rightarrow> json option" where
  "path r a b = (case field r a of None \<Rightarrow> None | Some v \<Rightarrow> field v b)"

section \<open>The document\<close>

text \<open>
  What an element shows: a text node (\<open>textContent = ...\<close>), parsed markup
  (\<open>innerHTML = ...\<close> of a computed string), one of the source's template literals
  (named, with the values of its holes in order; its static markup is left out), or
  markup appended to what was there (\<open>insertAdjacentHTML('beforeend', ...)\<close>).
\<close>

datatype content =
    Text jsstring
  | Html jsstring
  | Tmpl string "jsstring list"
  | Appended content content

text \<open>
  The collaborators the client calls but does not define: the markdown library, the
  browser's reading of markup, the printing and arithmetic of doubles, the random part of
  a client id. Every function of the model takes them as its first argument.
  \<^item> \<open>marked\<close>: \<open>marked.parse\<close> when the library is loaded (\<open>None\<close> inside: it threw);
  \<^item> \<open>markdownRegexes\<close>: the chain of \<open>replace\<close> calls of \<open>simpleMarkdownParse\<close>;
  \<^item> \<open>domText\<close>: the \<open>textContent\<close> the browser computes for parsed content;
  \<^item> \<open>retitle tag new markup\<close>: the markup with the inner markup of its first \<open>tag\<close>
    element replaced by \<open>new\<close>, \<open>None\<close> when it has no such element;
  \<^item> \<open>toFixed\<close>, \<open>numToString\<close>: \<open>Number.prototype.toFixed\<close> and the number to string
    conversion; \<open>times100 v\<close>: the double \<open>v * 100\<close>;
  \<^item> \<open>readFloat\<close>: \<open>parseFloat\<close> on a string that is not blank; \<open>readNumber\<close>: the
    conversion of such a string to a number in a comparison;
  \<^item> \<open>randomId n\<close>: the \<open>n\<close>-th result of \<open>generateClientId\<close>.
\<close>

record env =
  marked :: "(json \<Rightarrow> jsstring option) option"
  markdownRegexes :: "jsstring \<Rightarrow> jsstring"
  domText :: "content \<Rightarrow> jsstring"
  retitle :: "string \<Rightarrow> jsstring \<Rightarrow> jsstring \<Rightarrow> jsstring option"
  toFixed :: "nat \<Rightarrow> jsnum \<Rightarrow> jsstring"
  numToString :: "jsnum \<Rightarrow> jsstring"
  times100 :: "json \<Rightarrow> jsnum"
  readFloat :: "jsstring \<Rightarrow> jsnum"
  readNumber :: "jsstring \<Rightarrow> jsnum"
  randomId :: "nat \<Rightarrow> jsstring"

text \<open>String conversion of a value in a template literal or a string concatenation.\<close>

fun join_comma :: "jsstring list \<Rightarrow> jsstring" where
  "join_comma [] = []"
| "join_comma [x] = x"
| "join_comma (x # y # ys) = x @ str '','' @ join_comma (y # ys)"

fun tostr :: "env \<Rightarrow> json \<Rightarrow> jsstring" where
  "tostr E JUndef = str ''undefined''"
| "tostr E JNull = str ''null''"
| "tostr E (JBool b) = (if b then str ''true'' else str ''false'')"
| "tostr E (JNum n) = numToString E n"
| "tostr E (JStr s) = s"
| "tostr E (JArr xs) =
     join_comma (map (\<lambda>x. if x = JNull \<or> x = JUndef then [] else tostr E x) xs)"
| "tostr E (JObj kvs) = str ''[object Object]''"

definition textContent :: "env \<Rightarrow> content \<Rightarrow> jsstring" where
  "textContent E c = (case c of Text t \<Rightarrow> t | _ \<Rightarrow> domText E c)"

text \<open>
  An element with an id. \<open>heading\<close> is the first \<open>h3\<close> under the element's parent when it
  stands before the element (the title above the narrative container in the templates of
  the source); \<open>wired\<close> says that click listeners were attached to the tab buttons inside;
  \<open>anc\<close> lists the ids of the elements it is nested in, nearest first.
\<close>

record element =
  content :: content
  classes :: "string set"
  whiteSpace :: "string option"
  heading :: "content option"
  wired :: bool
  anc :: "string list"

record progress =
  display :: string
  fill :: string

datatype request = Get string | Post string json

text \<open>
  Two kinds of steps are kept in the order in which the script takes them: the reset loop
  of a batch submission hiding a slot container, and a request being sent.
\<close>

datatype effect = Hid string | Sent request

datatype ready = CONNECTING | OPEN | CLOSED

text \<open>
  The globals of the script and the page. The controls of the page template (buttons,
  inputs, status line, progress bars, log) are fields: the source reads them without a
  null check everywhere. Everything created while the page runs, and the batch slots, is
  looked up by id in \<open>elems\<close>, where a missing element is \<open>null\<close>. The field
  \<open>journal\<close> lists the steps above, the latest last.
\<close>

record view =
  isAnalyzing :: bool
  sseConnection :: "ready option"
  currentClientId :: "jsstring option"
  ids_drawn :: nat
  timers :: nat
  sseConnected :: bool
  sseStatus :: jsstring
  log :: "(string \<times> jsstring) list"
  analyzeBtn_disabled :: bool
  batchAnalyzeBtn_disabled :: bool
  systemStatus_class :: string
  systemStatus_text :: jsstring
  singleProgress :: progress
  batchProgress :: progress
  currentStock_display :: string
  stockCode_value :: jsstring
  positionPercent_value :: jsstring
  avgPrice_value :: jsstring
  enableStreaming_checked :: bool
  stockList_value :: jsstring
  journal :: "effect list"
  elems :: "string \<Rightarrow> element option"

text \<open>The requests sent so far, in order.\<close>

fun sent :: "effect \<Rightarrow> request list" where
  "sent (Sent r) = [r]"
| "sent (Hid i) = []"

definition requests :: "view \<Rightarrow> request list" where
  "requests s = concat (map sent (journal s))"

text \<open>A handler either returns or throws; what it wrote before throwing stays written.\<close>

datatype result = Done view | Threw view

fun state_of :: "result \<Rightarrow> view" where
  "state_of (Done s) = s"
| "state_of (Threw s) = s"

fun and_then :: "result \<Rightarrow> (view \<Rightarrow> result) \<Rightarrow> result" where
  "and_then (Done s) f = f s"
| "and_then (Threw s) f = Threw s"

text \<open>Assigning \<open>innerHTML\<close> or \<open>textContent\<close> removes what was nested in the element.\<close>

definition drop_inside :: "string \<Rightarrow> (string \<Rightarrow> element option) \<Rightarrow> string \<Rightarrow> element option" where
  "drop_inside i m = (\<lambda>j. case m j of
       None \<Rightarrow> None
     | Some e \<Rightarrow> if i \<in> set (anc e) then None else Some e)"

definition put_content :: "string \<Rightarrow> element \<Rightarrow> content \<Rightarrow> view \<Rightarrow> view" where
  "put_content i e c s = s\<lparr>elems := (drop_inside i (elems s))(i \<mapsto> e\<lparr>content := c\<rparr>)\<rparr>"

text \<open>
  \<open>document.getElementById(i).textContent = v\<close>, where \<open>v = None\<close> means that computing
  the right-hand side threw.
\<close>

definition set_text :: "string \<Rightarrow> jsstring option \<Rightarrow> view \<Rightarrow> result" where
  "set_text i v s =
     (case elems s i of
        None \<Rightarrow> Threw s
      | Some e \<Rightarrow> (case v of None \<Rightarrow> Threw s | Some t \<Rightarrow> Done (put_content i e (Text t) s)))"

section \<open>Literals of the source\<close>

text \<open>
  The texts the client writes, as code units. In the order below: the title above the
  narrative while it streams and once it is complete (main.js lines 163 and 329), the
  replacement title of line 334, the completion banner (355), the labels and fallbacks of
  the display fields (358 to 370: stock code, price, change, trend, "unknown", sentiment,
  "neutral", news count and its suffix, confidence).
\<close>

definition title_live :: jsstring where
  "title_live = [0xD83E, 0xDD16, 0x20, 0x41, 0x49, 0x20, 0x6DF1, 0x5EA6, 0x5206, 0x6790, 0x20, 0x2D,
     0x20, 0x5B9E, 0x65F6, 0x751F, 0x6210, 0x4E2D, 0x2E, 0x2E, 0x2E]"

definition title_done :: jsstring where
  "title_done = [0xD83E, 0xDD16, 0x20, 0x41, 0x49, 0x20, 0x6DF1, 0x5EA6, 0x5206, 0x6790, 0x20]
     @ str ''<span style=\"color: #28a745; font-size: 12px;\">''
     @ [0x2705, 0x20, 0x751F, 0x6210, 0x5B8C, 0x6210] @ str ''</span>''"

definition title_report :: jsstring where
  "title_report = [0x4C, 0x4C, 0x4D, 0x20, 0x6DF1, 0x5EA6, 0x5206, 0x6790, 0x62A5, 0x544A]"

definition status_done :: jsstring where
  "status_done = [0x2705, 0x20, 0x6D41, 0x5F0F, 0x5206, 0x6790, 0x5B8C, 0x6210]"

definition lbl_code :: jsstring where
  "lbl_code = [0x80A1, 0x7968, 0x4EE3, 0x7801, 0x3A, 0x20]"

definition lbl_price :: jsstring where
  "lbl_price = [0x5F53, 0x524D, 0x4EF7, 0x683C, 0x3A, 0x20, 0xA5]"

definition lbl_change :: jsstring where
  "lbl_change = [0x6DA8, 0x8DCC, 0x5E45, 0x3A, 0x20]"

definition lbl_trend :: jsstring where
  "lbl_trend = [0x8D8B, 0x52BF, 0x3A, 0x20]"

definition txt_unknown :: jsstring where
  "txt_unknown = [0x672A, 0x77E5]"

definition lbl_sentiment :: jsstring where
  "lbl_sentiment = [0x60C5, 0x7EEA, 0x8D8B, 0x52BF, 0x3A, 0x20]"

definition txt_neutral :: jsstring where
  "txt_neutral = [0x4E2D, 0x6027]"

definition lbl_news :: jsstring where
  "lbl_news = [0x65B0, 0x95FB, 0x6570, 0x91CF, 0x3A, 0x20]"

definition sfx_news :: jsstring where
  "sfx_news = [0x20, 0x6761]"

definition lbl_confidence :: jsstring where
  "lbl_confidence = [0x7F6E, 0x4FE1, 0x5EA6, 0x3A, 0x20]"

section \<open>The streaming accumulator and the single-job view\<close>

text \<open>
  \<open>addLog\<close>: one more entry in the log display. An entry is its type and its message; the
  time stamp and the icon chosen from the type are left out.
\<close>

definition addLog :: "jsstring \<Rightarrow> string \<Rightarrow> view \<Rightarrow> view" where
  "addLog message type s = s\<lparr>log := log s @ [(type, message)]\<rparr>"

text \<open>
  \<open>handleAIStream\<close> (main.js 148 to 184). The second half, lines 172 to 183: append the
  fragment to the text of the container. Scrolling is layout and is left out.
\<close>

definition appendStream :: "env \<Rightarrow> json \<Rightarrow> view \<Rightarrow> result" where
  "appendStream E data s =
     (case elems s ''aiStreamContent'' of
        None \<Rightarrow> Done s
      | Some e \<Rightarrow>
          (case field data ''content'' of
             None \<Rightarrow> Threw s
           | Some v \<Rightarrow>
               if truthy v
               then Done (put_content ''aiStreamContent'' e
                            (Text (textContent E (content e) @ tostr E v)) s)
               else Done s))"

text \<open>
  The first half, lines 150 to 169: a container that does not exist yet is created at the
  end of the results area, under its own title, with nothing in it.
\<close>

definition handleAIStream :: "env \<Rightarrow> json \<Rightarrow> view \<Rightarrow> result" where
  "handleAIStream E data s =
     (case elems s ''aiStreamContent'' of
        Some e \<Rightarrow> appendStream E data s
      | None \<Rightarrow>
          (case elems s ''resultsContent'' of
             None \<Rightarrow> Threw s
           | Some rc \<Rightarrow>
               appendStream E data
                 (s\<lparr>elems := (elems s)
                    (''resultsContent'' \<mapsto>
                       rc\<lparr>content := Appended (content rc) (Tmpl ''ai-stream-scaffold'' [])\<rparr>,
                     ''aiStreamContent'' \<mapsto>
                       \<lparr>content = Text [], classes = {}, whiteSpace = Some ''pre-wrap'',
                        heading = Some (Html title_live), wired = False,
                        anc = ''resultsContent'' # anc rc\<rparr>)\<rparr>)))"

text \<open>A run of \<open>ai_stream\<close> events, handled one after the other; a throw ends the run.\<close>

fun feed :: "env \<Rightarrow> json list \<Rightarrow> view \<Rightarrow> result" where
  "feed E [] s = Done s"
| "feed E (d # ds) s = and_then (handleAIStream E d s) (feed E ds)"

text \<open>\<open>parseMarkdown\<close> and the guard of its fallback \<open>simpleMarkdownParse\<close> (294, 383).\<close>

definition simpleMarkdownParse :: "env \<Rightarrow> json \<Rightarrow> jsstring option" where
  "simpleMarkdownParse E v =
     (if \<not> truthy v then Some []
      else (case v of JStr t \<Rightarrow> Some (markdownRegexes E t) | _ \<Rightarrow> None))"

definition parseMarkdown :: "env \<Rightarrow> json \<Rightarrow> jsstring option" where
  "parseMarkdown E v = (case marked E of Some parse \<Rightarrow> parse v | None \<Rightarrow> simpleMarkdownParse E v)"

text \<open>
  The right-hand sides of \<open>updateNonAIContent\<close> (352 to 378): \<open>(v || 0).toFixed(d)\<close>,
  \<open>v || fallback\<close> inside a template literal, and \<open>(v || 0) * 100\<close>.
\<close>

definition fixed :: "env \<Rightarrow> nat \<Rightarrow> json \<Rightarrow> jsstring option" where
  "fixed E d v =
     (if truthy v then (case v of JNum n \<Rightarrow> Some (toFixed E d n) | _ \<Rightarrow> None)
      else Some (toFixed E d (Fin 0)))"

definition or_else :: "env \<Rightarrow> json \<Rightarrow> jsstring \<Rightarrow> jsstring" where
  "or_else E v d = (if truthy v then tostr E v else d)"

definition percent :: "env \<Rightarrow> json \<Rightarrow> jsnum" where
  "percent E v = (if truthy v then times100 E v else Fin 0)"

definition wrap :: "jsstring \<Rightarrow> jsstring \<Rightarrow> jsstring option \<Rightarrow> jsstring option" where
  "wrap pre post v = map_option (\<lambda>t. pre @ t @ post) v"

definition updateNonAIContent :: "env \<Rightarrow> json \<Rightarrow> view \<Rightarrow> result" where
  "updateNonAIContent E report s0 =
     and_then (Done (case elems s0 ''analysisStatus'' of
                       None \<Rightarrow> s0
                     | Some e \<Rightarrow> put_content ''analysisStatus'' e (Text status_done) s0)) (\<lambda>s.
     and_then (set_text ''stockCodeDisplay''
                 (wrap lbl_code [] (map_option (tostr E) (field report ''stock_code''))) s) (\<lambda>s.
     and_then (set_text ''currentPriceDisplay''
                 (wrap lbl_price [] (Option.bind (chain report ''price_info'' ''current_price'') (fixed E 2))) s) (\<lambda>s.
     and_then (set_text ''priceChangeDisplay''
                 (wrap lbl_change (str ''%'') (Option.bind (chain report ''price_info'' ''price_change'') (fixed E 2))) s) (\<lambda>s.
     and_then (set_text ''rsiDisplay''
                 (wrap (str ''RSI: '') [] (Option.bind (chain report ''technical_analysis'' ''rsi'') (fixed E 1))) s) (\<lambda>s.
     and_then (set_text ''trendDisplay''
                 (wrap lbl_trend [] (map_option (\<lambda>v. or_else E v txt_unknown)
                    (chain report ''technical_analysis'' ''ma_trend''))) s) (\<lambda>s.
     and_then (set_text ''macdDisplay''
                 (wrap (str ''MACD: '') [] (map_option (\<lambda>v. or_else E v txt_unknown)
                    (chain report ''technical_analysis'' ''macd_signal''))) s) (\<lambda>s.
     and_then (set_text ''sentimentTrendDisplay''
                 (wrap lbl_sentiment [] (map_option (\<lambda>v. or_else E v txt_neutral)
                    (chain report ''sentiment_analysis'' ''sentiment_trend''))) s) (\<lambda>s.
     and_then (set_text ''newsCountDisplay''
                 (wrap lbl_news sfx_news (map_option (\<lambda>v. or_else E v (tostr E (JNum (Fin 0))))
                    (chain report ''sentiment_analysis'' ''total_analyzed''))) s) (\<lambda>s.
     and_then (set_text ''confidenceDisplay''
                 (wrap lbl_confidence (str ''%'') (map_option (\<lambda>v. toFixed E 1 (percent E v))
                    (chain report ''sentiment_analysis'' ''confidence_score''))) s) (\<lambda>s.
       (case field report ''ai_content'' of
          None \<Rightarrow> Threw s
        | Some v \<Rightarrow>
            if truthy v then set_text ''aiStreamContent'' (Some (tostr E v)) s
            else Done s)))))))))))"

text \<open>
  \<open>displayResults\<close> (320 to 350). The container is a \<open>div\<close> in the templates of the
  source, so \<open>closest('div')\<close> is the container itself and the \<open>h2\<close> looked for is one
  inside the narrative; text nodes have none. The \<open>h3\<close> is the title above the
  container, or else the first one inside it.
\<close>

definition mark_complete :: "env \<Rightarrow> element \<Rightarrow> element" where
  "mark_complete E e =
     (case heading e of
        Some h \<Rightarrow> e\<lparr>heading := Some (Html title_done)\<rparr>
      | None \<Rightarrow>
          (case content e of
             Html m \<Rightarrow> (case retitle E ''h3'' title_done m of
                          Some m' \<Rightarrow> e\<lparr>content := Html m'\<rparr> | None \<Rightarrow> e)
           | _ \<Rightarrow> e))"

definition retitle_report :: "env \<Rightarrow> element \<Rightarrow> element" where
  "retitle_report E e =
     (case content e of
        Html m \<Rightarrow> (case retitle E ''h2'' title_report m of
                     Some m' \<Rightarrow> e\<lparr>content := Html m'\<rparr> | None \<Rightarrow> e)
      | _ \<Rightarrow> e)"

definition displayResults :: "env \<Rightarrow> json \<Rightarrow> view \<Rightarrow> result" where
  "displayResults E report s =
     (case elems s ''aiStreamContent'' of
        None \<Rightarrow> Done s
      | Some e \<Rightarrow>
          if trim (textContent E (content e)) = [] then Done s
          else
            (let e1 = retitle_report E (mark_complete E e);
                 s1 = s\<lparr>elems := (elems s)(''aiStreamContent'' \<mapsto> e1)\<rparr>
             in case parseMarkdown E (JStr (textContent E (content e1))) of
                  None \<Rightarrow> Threw s1
                | Some aiAnalysisHtml \<Rightarrow>
                    updateNonAIContent E report
                      (put_content ''aiStreamContent''
                         (e1\<lparr>classes := insert ''ai-analysis-content'' (classes e1),
                             whiteSpace := Some ''normal''\<rparr>)
                         (Html aiAnalysisHtml) s1)))"

section \<open>The job lifecycle\<close>

text \<open>
  More literals: the status line and log texts of \<open>onAnalysisError\<close> (417, 425, 429), of
  \<open>analyzeSingleStock\<close> (438, 442, 448, 454, 461, 463) and of \<open>analyzeBatchStocks\<close>
  (500, 511, 525, 527).
\<close>

definition status_failed :: jsstring where
  "status_failed = [0x5206, 0x6790, 0x5931, 0x8D25]"

definition txt_unknown_error :: jsstring where
  "txt_unknown_error = [0x672A, 0x77E5, 0x9519, 0x8BEF]"

definition log_failed :: jsstring where
  "log_failed = [0x274C, 0x20, 0x5206, 0x6790, 0x5931, 0x8D25, 0x3A, 0x20]"

definition msg_need_code :: jsstring where
  "msg_need_code = [0x8BF7, 0x8F93, 0x5165, 0x80A1, 0x7968, 0x4EE3, 0x7801]"

definition msg_default_position :: jsstring where
  "msg_default_position = [0x9ED8, 0x8BA4, 0x672A, 0x4E70, 0x5165]"

definition msg_need_avg :: jsstring where
  "msg_need_avg = [0x8BF7, 0x8F93, 0x5165, 0x6301, 0x4ED3, 0x5747, 0x4EF7]"

definition msg_busy :: jsstring where
  "msg_busy = [0x5206, 0x6790, 0x6B63, 0x5728, 0x8FDB, 0x884C, 0x4E2D, 0xFF0C, 0x8BF7, 0x7A0D, 0x5019]"

definition status_analyzing :: jsstring where
  "status_analyzing = [0x5206, 0x6790, 0x4E2D]"

definition log_start :: jsstring where
  "log_start = [0xD83D, 0xDE80, 0x20, 0x5F00, 0x59CB, 0x6D41, 0x5F0F, 0x5206, 0x6790, 0x80A1, 0x7968, 0x3A, 0x20]"

definition msg_need_list :: jsstring where
  "msg_need_list = [0x8BF7, 0x8F93, 0x5165, 0x80A1, 0x7968, 0x4EE3, 0x7801, 0x5217, 0x8868]"

definition msg_list_empty :: jsstring where
  "msg_list_empty = [0x80A1, 0x7968, 0x4EE3, 0x7801, 0x5217, 0x8868, 0x4E3A, 0x7A7A]"

definition status_batch :: jsstring where
  "status_batch = [0x6279, 0x91CF, 0x5206, 0x6790, 0x4E2D]"

definition log_batch_start :: jsstring where
  "log_batch_start = [0xD83D, 0xDCCA, 0x20, 0x5F00, 0x59CB, 0x6D41, 0x5F0F, 0x6279, 0x91CF, 0x5206, 0x6790, 0x20]"

definition log_batch_stocks :: jsstring where
  "log_batch_stocks = [0x20, 0x53EA, 0x80A1, 0x7968]"

definition showProgress :: "bool \<Rightarrow> progress \<Rightarrow> progress" where
  "showProgress show p =
     (if show then p\<lparr>display := ''block''\<rparr> else p\<lparr>display := ''none'', fill := ''0%''\<rparr>)"

text \<open>
  \<open>onAnalysisError\<close> (412 to 430). The controls are reset first; the panel that replaces
  the results area is the template of lines 422 to 427 with its one hole.
\<close>

definition onAnalysisError :: "env \<Rightarrow> json \<Rightarrow> view \<Rightarrow> result" where
  "onAnalysisError E data s =
     (let s1 = s\<lparr>isAnalyzing := False,
                  analyzeBtn_disabled := False,
                  batchAnalyzeBtn_disabled := False,
                  systemStatus_class := ''status-indicator status-error'',
                  systemStatus_text := status_failed,
                  singleProgress := showProgress False (singleProgress s),
                  batchProgress := showProgress False (batchProgress s),
                  currentStock_display := ''none''\<rparr>
      in case elems s1 ''resultsContent'' of
           None \<Rightarrow> Threw s1
         | Some rc \<Rightarrow>
             (case field data ''error'' of
                None \<Rightarrow> Threw s1
              | Some err \<Rightarrow>
                  Done (addLog (log_failed @ tostr E err) ''error''
                          (put_content ''resultsContent'' rc
                             (Tmpl ''error-panel'' [or_else E err txt_unknown_error]) s1))))"

text \<open>
  \<open>parseFloat\<close>: a string that is empty or blank gives \<open>NaN\<close>; any other string is read
  by the environment.
\<close>

definition parseFloat :: "env \<Rightarrow> jsstring \<Rightarrow> jsnum" where
  "parseFloat E t = (if trim t = [] then NaN else readFloat E t)"

text \<open>
  \<open>showLoading\<close> (254 to 265) asks for the page fragment; what happens when it arrives is
  not part of a submission.
\<close>

definition showLoading :: "view \<Rightarrow> view" where
  "showLoading s = s\<lparr>journal := journal s @ [Sent (Get ''/static/html/result_content.html'')]\<rparr>"

definition client_id :: "view \<Rightarrow> json" where
  "client_id s = (case currentClientId s of None \<Rightarrow> JNull | Some c \<Rightarrow> JStr c)"

text \<open>
  \<open>analyzeSingleStock\<close> (433 to 495), up to the moment the request has left; the order of
  its checks is the order of the source.
\<close>

definition submitSingle :: "jsstring \<Rightarrow> jsnum \<Rightarrow> jsnum \<Rightarrow> view \<Rightarrow> view" where
  "submitSingle stockCode positionPercent avgPrice s =
     (if isAnalyzing s then addLog msg_busy ''warning'' s
      else
        (let s1 = s\<lparr>isAnalyzing := True,
                     analyzeBtn_disabled := True,
                     systemStatus_class := ''status-indicator status-analyzing'',
                     systemStatus_text := status_analyzing\<rparr>;
             s2 = showLoading (addLog (log_start @ stockCode) ''header'' s1);
             s3 = s2\<lparr>singleProgress := showProgress True (singleProgress s2)\<rparr>
         in s3\<lparr>journal := journal s3 @
               [Sent (Post ''/analyze/streaming''
                  (JObj [(''stock_code'', JStr stockCode),
                         (''positionPercent'', JNum positionPercent),
                         (''avgPrice'', JNum avgPrice),
                         (''enable_streaming'', JBool (enableStreaming_checked s)),
                         (''client_id'', client_id s)]))]\<rparr>))"

definition analyzeSingleStock :: "env \<Rightarrow> view \<Rightarrow> view" where
  "analyzeSingleStock E s =
     (let stockCode = trim (stockCode_value s);
          positionPercent = parseFloat E (positionPercent_value s);
          avgPrice = parseFloat E (avgPrice_value s)
      in if stockCode = [] then addLog msg_need_code ''warning'' s
         else if \<not> num_truthy positionPercent
         then submitSingle stockCode (Fin 0) (Fin (- 1)) (addLog msg_default_position ''info'' s)
         else if num_gt0 positionPercent \<and> \<not> num_truthy avgPrice
         then addLog msg_need_avg ''warning'' s
         else submitSingle stockCode positionPercent avgPrice s)"

text \<open>\<open>split('\n')\<close>, and the list of codes of line 509.\<close>

fun split_lines :: "jsstring \<Rightarrow> jsstring list" where
  "split_lines [] = [[]]"
| "split_lines (c # cs) =
     (if c = 0xA then [] # split_lines cs
      else (case split_lines cs of l # ls \<Rightarrow> (c # l) # ls | [] \<Rightarrow> [[c]]))"

definition stock_list :: "jsstring \<Rightarrow> jsstring list" where
  "stock_list t = filter (\<lambda>l. l \<noteq> []) (map trim (split_lines t))"

text \<open>
  The loop of lines 515 to 520: for \<open>i\<close> from 0 to 9, the container \<open>batchSlot\<close>\<open>i\<close>, if
  the page has one, gets the class \<open>hidden\<close>.
\<close>

definition slot_id :: "int \<Rightarrow> string" where
  "slot_id i = ''batchSlot'' @ dec i"

definition hide_slot :: "view \<Rightarrow> nat \<Rightarrow> view" where
  "hide_slot s i =
     (case elems s (slot_id (int i)) of
        None \<Rightarrow> s
      | Some e \<Rightarrow> s\<lparr>elems := (elems s)(slot_id (int i) \<mapsto>
                                   e\<lparr>classes := insert ''hidden'' (classes e)\<rparr>),
                     journal := journal s @ [Hid (slot_id (int i))]\<rparr>)"

definition hideSlots :: "view \<Rightarrow> view" where
  "hideSlots s = foldl hide_slot s [0..<10]"

text \<open>Lines 522 to 542: what an accepted batch submission does once the slots are hidden.\<close>

definition submitBatch :: "jsstring list \<Rightarrow> view \<Rightarrow> view" where
  "submitBatch stockList s =
     (let s1 = s\<lparr>isAnalyzing := True,
                  batchAnalyzeBtn_disabled := True,
                  systemStatus_class := ''status-indicator status-analyzing'',
                  systemStatus_text := status_batch\<rparr>;
          s2 = showLoading
                 (addLog (log_batch_start @ str (dec (int (length stockList))) @ log_batch_stocks)
                    ''header'' s1);
          s3 = s2\<lparr>batchProgress := showProgress True (batchProgress s2),
                   currentStock_display := ''block''\<rparr>
      in s3\<lparr>journal := journal s3 @
            [Sent (Post ''/analyze/batch_streaming''
               (JObj [(''stock_codes'', JArr (map JStr stockList)),
                      (''client_id'', client_id s)]))]\<rparr>)"

definition analyzeBatchStocks :: "view \<Rightarrow> view" where
  "analyzeBatchStocks s =
     (let stockListText = trim (stockList_value s)
      in if stockListText = [] then addLog msg_need_list ''warning'' s
         else if isAnalyzing s then addLog msg_busy ''warning'' s
         else if stock_list stockListText = [] then addLog msg_list_empty ''warning'' s
         else submitBatch (stock_list stockListText) (hideSlots s))"

text \<open>\<open>onAnalysisComplete\<close> (399 to 410).\<close>

definition onAnalysisComplete :: "view \<Rightarrow> view" where
  "onAnalysisComplete s =
     addLog ([0x2705, 0x20, 0x5206, 0x6790, 0x5B8C, 0x6210]) ''success''
       (s\<lparr>isAnalyzing := False,
          analyzeBtn_disabled := False,
          batchAnalyzeBtn_disabled := False,
          systemStatus_class := ''status-indicator status-ready'',
          systemStatus_text := [0x7CFB, 0x7EDF, 0x5C31, 0x7EEA],
          singleProgress := showProgress False (singleProgress s),
          batchProgress := showProgress False (batchProgress s),
          currentStock_display := ''none''\<rparr>)"

section \<open>The older client\<close>

text \<open>
  The file \<open>app/static/main.js\<close> is an older copy of the client. Its \<open>initSSE\<close>,
  \<open>handleAIStream\<close>, \<open>displayResults\<close> and \<open>onAnalysisError\<close> are those modelled above
  (up to the icons in the log texts); its single submission differs and is modelled here.
  It compares the raw text of the position input with zero, so the text is converted to a
  number: a blank text is \<open>0\<close>, any other text is read by the environment.
\<close>

definition toNumber :: "env \<Rightarrow> jsstring \<Rightarrow> jsnum" where
  "toNumber E t = (if trim t = [] then Fin 0 else readNumber E t)"

text \<open>
  Its \<open>showLoading\<close> (294 to 350) writes the scaffold of the result into the results area
  at once: the display fields with their placeholders and an empty narrative container
  under its title. The listeners \<open>initTabSwitching\<close> puts on the two tab buttons, which
  have no id, are left out.
\<close>

definition placeholders :: "(string \<times> jsstring) list" where
  "placeholders =
     [(''stockCodeDisplay'', [0x80A1, 0x7968, 0x4EE3, 0x7801, 0x3A, 0x20, 0x2D, 0x2D]),
      (''currentPriceDisplay'', [0x5F53, 0x524D, 0x4EF7, 0x683C, 0x3A, 0x20, 0x2D, 0x2D]),
      (''priceChangeDisplay'', [0x6DA8, 0x8DCC, 0x5E45, 0x3A, 0x20, 0x2D, 0x2D]),
      (''rsiDisplay'', str ''RSI: --''),
      (''trendDisplay'', [0x8D8B, 0x52BF, 0x3A, 0x20, 0x2D, 0x2D]),
      (''macdDisplay'', str ''MACD: --''),
      (''sentimentTrendDisplay'', [0x60C5, 0x7EEA, 0x8D8B, 0x52BF, 0x3A, 0x20, 0x2D, 0x2D]),
      (''newsCountDisplay'', [0x65B0, 0x95FB, 0x6570, 0x91CF, 0x3A, 0x20, 0x2D, 0x2D]),
      (''confidenceDisplay'', [0x7F6E, 0x4FE1, 0x5EA6, 0x3A, 0x20, 0x2D, 0x2D]),
      (''recommendationDisplay'', [0x6682, 0x65E0, 0x6570, 0x636E])]"

definition scaffold :: "string list \<Rightarrow> (string \<times> element) list" where
  "scaffold up =
     (''basicInfoContainer'',
        \<lparr>content = Tmpl ''basic-info'' [], classes = {}, whiteSpace = None, heading = None,
         wired = False, anc = up\<rparr>)
     # map (\<lambda>(i, t). (i, \<lparr>content = Text t, classes = {}, whiteSpace = None, heading = None,
                           wired = False, anc = ''basicInfoContainer'' # up\<rparr>)) placeholders
     @ [(''llm-results'',
           \<lparr>content = Tmpl ''llm-results'' [], classes = {''llm-tab-content'', ''active''},
            whiteSpace = None, heading = None, wired = False, anc = up\<rparr>),
        (''aiStreamContainer'',
           \<lparr>content = Tmpl ''ai-stream-container'' [], classes = {}, whiteSpace = None,
            heading = None, wired = False, anc = ''llm-results'' # up\<rparr>),
        (''aiStreamContent'',
           \<lparr>content = Text [], classes = {}, whiteSpace = Some ''pre-wrap'',
            heading = Some (Html title_live), wired = False,
            anc = ''aiStreamContainer'' # ''llm-results'' # up\<rparr>),
        (''llm-prompt'',
           \<lparr>content = Tmpl ''llm-prompt'' [], classes = {''llm-tab-content''},
            whiteSpace = None, heading = None, wired = False, anc = up\<rparr>),
        (''promptDisplay'',
           \<lparr>content = Text (str ''Prompt '' @ [0x5C06, 0x5728, 0x5206, 0x6790, 0x5B8C, 0x6210,
                              0x540E, 0x663E, 0x793A]),
            classes = {}, whiteSpace = None, heading = None, wired = False,
            anc = ''llm-prompt'' # up\<rparr>)]"

definition showLoading_static :: "view \<Rightarrow> result" where
  "showLoading_static s =
     (case elems s ''resultsContent'' of
        None \<Rightarrow> Threw s
      | Some rc \<Rightarrow>
          (let s1 = put_content ''resultsContent'' rc (Tmpl ''loading'' []) s
           in Done (s1\<lparr>elems := elems s1 ++ map_of (scaffold (''resultsContent'' # anc rc))\<rparr>)))"

text \<open>
  Its \<open>analyzeSingleStock\<close> (620 to 682), up to the moment the request has left. The
  inputs are sent as they were typed.
\<close>

definition submitSingle_static :: "jsstring \<Rightarrow> json \<Rightarrow> json \<Rightarrow> view \<Rightarrow> result" where
  "submitSingle_static stockCode positionPercent avgPrice s =
     (if isAnalyzing s then Done (addLog msg_busy ''warning'' s)
      else
        and_then
          (showLoading_static
             (addLog (log_start @ stockCode) ''header''
                (s\<lparr>isAnalyzing := True,
                   analyzeBtn_disabled := True,
                   systemStatus_class := ''status-indicator status-analyzing'',
                   systemStatus_text := status_analyzing\<rparr>)))
          (\<lambda>s2. Done (s2\<lparr>singleProgress := showProgress True (singleProgress s2),
                         journal := journal s2 @
                           [Sent (Post ''/analyze/streaming''
                              (JObj [(''stock_code'', JStr stockCode),
                                     (''positionPercent'', positionPercent),
                                     (''avgPrice'', avgPrice),
                                     (''enable_streaming'', JBool (enableStreaming_checked s)),
                                     (''client_id'', client_id s)]))]\<rparr>)))"

definition analyzeSingleStock_static :: "env \<Rightarrow> view \<Rightarrow> result" where
  "analyzeSingleStock_static E s =
     (let stockCode = trim (stockCode_value s);
          positionPercent = positionPercent_value s;
          avgPrice = avgPrice_value s
      in if stockCode = [] then Done (addLog msg_need_code ''warning'' s)
         else if positionPercent = []
         then submitSingle_static stockCode (JNum (Fin 0)) (JNum (Fin (- 1)))
                (addLog msg_default_position ''info'' s)
         else if num_gt0 (toNumber E positionPercent) \<and> avgPrice = []
         then Done (addLog msg_need_avg ''warning'' s)
         else submitSingle_static stockCode (JStr positionPercent) (JStr avgPrice) s)"

section \<open>The batch view\<close>

text \<open>
  The ids of the elements of slot \<open>i\<close>: the ones the page declares (600 to 605) and the
  ones the card brings with it (646, 653, 657, 661).
\<close>

definition title_id :: "int \<Rightarrow> string" where
  "title_id i = ''slotTitle'' @ dec i"

definition financial_id :: "int \<Rightarrow> string" where
  "financial_id i = ''financialCountBatch'' @ dec i"

definition news_id :: "int \<Rightarrow> string" where
  "news_id i = ''newsCountBatch'' @ dec i"

definition completeness_id :: "int \<Rightarrow> string" where
  "completeness_id i = ''completenessBatch'' @ dec i"

definition card_id :: "int \<Rightarrow> string" where
  "card_id i = ''batchResultsContent'' @ dec i"

definition tabs_id :: "int \<Rightarrow> string" where
  "tabs_id i = ''tabContainer'' @ dec i"

definition value_prompt_id :: "int \<Rightarrow> string" where
  "value_prompt_id i = ''value-prompt-'' @ dec i"

definition llm_prompt_id :: "int \<Rightarrow> string" where
  "llm_prompt_id i = ''llm-prompt-'' @ dec i"

definition llm_results_id :: "int \<Rightarrow> string" where
  "llm_results_id i = ''llm-results-'' @ dec i"



text \<open>
  The nine holes of the three boxes of the card (623 to 641), in order. Price and technical
  analysis are read without a question mark, the sentiment with one.
\<close>

definition card_fields :: "env \<Rightarrow> json \<Rightarrow> jsstring option list" where
  "card_fields E report =
     [map_option (tostr E) (field report ''stock_code''),
      map_option (tostr E) (path report ''price_info'' ''current_price''),
      map_option (tostr E) (path report ''price_info'' ''price_change''),
      map_option (tostr E) (path report ''technical_analysis'' ''rsi''),
      map_option (tostr E) (path report ''technical_analysis'' ''ma_trend''),
      map_option (tostr E) (path report ''technical_analysis'' ''macd_signal''),
      map_option (tostr E) (chain report ''sentiment_analysis'' ''sentiment_trend''),
      map_option (tostr E) (chain report ''sentiment_analysis'' ''total_analyzed''),
      map_option (tostr E) (chain report ''sentiment_analysis'' ''confidence_score'')]"

text \<open>The three rendered panes (654, 658, 663).\<close>

definition card_panes :: "env \<Rightarrow> json \<Rightarrow> jsstring option list" where
  "card_panes E report =
     [Option.bind (field report ''value_prompt'') (parseMarkdown E),
      Option.bind (field report ''prompt'') (parseMarkdown E),
      Option.bind (field report ''ai_analysis'') (parseMarkdown E)]"

definition pane :: "jsstring \<Rightarrow> string set \<Rightarrow> string list \<Rightarrow> element" where
  "pane m cs up =
     \<lparr>content = Tmpl ''tab-pane'' [m], classes = cs, whiteSpace = None, heading = None,
      wired = False, anc = up\<rparr>"

text \<open>
  Line 618: the card replaces what the slot's content element held, and brings the tab
  container and its three panes, the first of them active.
\<close>

definition render_card :: "int \<Rightarrow> element \<Rightarrow> jsstring list \<Rightarrow> jsstring \<Rightarrow> jsstring \<Rightarrow> jsstring \<Rightarrow> view \<Rightarrow> view" where
  "render_card i e fs vp lp lr s =
     (let n = str (dec i);
          s1 = put_content (card_id i) e
                 (Tmpl ''batch-card'' (fs @ [n, n, n, n, n, vp, n, lp, n, lr])) s;
          up = card_id i # anc e
      in s1\<lparr>elems := (elems s1)
           (tabs_id i \<mapsto> \<lparr>content = Tmpl ''tab-container'' [n], classes = {''tab-container''},
                            whiteSpace = None, heading = None, wired = False, anc = up\<rparr>,
            value_prompt_id i \<mapsto> pane vp {''llm-tab-content'', ''active''} (tabs_id i # up),
            llm_prompt_id i \<mapsto> pane lp {''llm-tab-content''} (tabs_id i # up),
            llm_results_id i \<mapsto> pane lr {''llm-tab-content''} (tabs_id i # up))\<rparr>)"

text \<open>Lines 667 to 684: the click listeners of the buttons of this slot's tab container.\<close>

definition wire_tabs :: "int \<Rightarrow> view \<Rightarrow> result" where
  "wire_tabs i s =
     (case elems s (tabs_id i) of
        None \<Rightarrow> Threw s
      | Some t \<Rightarrow> Done (s\<lparr>elems := (elems s)(tabs_id i \<mapsto> t\<lparr>wired := True\<rparr>)\<rparr>))"

definition unhide :: "int \<Rightarrow> view \<Rightarrow> result" where
  "unhide i s =
     (case elems s (slot_id i) of
        None \<Rightarrow> Threw s
      | Some e \<Rightarrow> Done (s\<lparr>elems := (elems s)(slot_id i \<mapsto> e\<lparr>classes := classes e - {''hidden''}\<rparr>)\<rparr>))"

text \<open>
  \<open>showBatchSlot\<close> (596 to 685). The payload is the slot index, an integer, and the report.
\<close>

definition showBatchSlot :: "env \<Rightarrow> int \<Rightarrow> json \<Rightarrow> view \<Rightarrow> result" where
  "showBatchSlot E index report s0 =
     and_then (set_text (title_id index)
                 (wrap (str (dec (index + 1)) @ str ''. '') []
                    (map_option (tostr E) (field report ''stock_name''))) s0) (\<lambda>s.
     and_then (unhide index s) (\<lambda>s.
     and_then (set_text (financial_id index)
                 (map_option (\<lambda>v. or_else E v (str ''--''))
                    (path report ''data_quality'' ''financial_indicators_count'')) s) (\<lambda>s.
     and_then (set_text (news_id index)
                 (map_option (\<lambda>v. or_else E v (str ''--''))
                    (path report ''data_quality'' ''total_news_count'')) s) (\<lambda>s.
     and_then (set_text (completeness_id index)
                 (map_option (\<lambda>v. or_else E v (str ''--''))
                    (path report ''data_quality'' ''analysis_completeness'')) s) (\<lambda>s.
       (case those (card_fields E report) of
          None \<Rightarrow> Threw s
        | Some fs \<Rightarrow>
            (case those (card_panes E report) of
               Some [vp, lp, lr] \<Rightarrow>
                 (case elems s (card_id index) of
                    None \<Rightarrow> Threw s
                  | Some e \<Rightarrow> wire_tabs index (render_card index e fs vp lp lr s))
             | _ \<Rightarrow> Threw s)))))))"

section \<open>The push channel\<close>

text \<open>
  The log and status texts of \<open>initSSE\<close> (28, 33, 47, 53) and \<open>updateSSEStatus\<close> (75, 78).
\<close>

definition msg_connecting :: jsstring where
  "msg_connecting = [0x6B63, 0x5728, 0x5EFA, 0x7ACB, 0x53, 0x53, 0x45, 0x8FDE, 0x63A5, 0x2E, 0x2E, 0x2E]"

definition msg_connected :: jsstring where
  "msg_connected = [0x53, 0x53, 0x45, 0x8FDE, 0x63A5, 0x5DF2, 0x5EFA, 0x7ACB]"

definition msg_channel_error :: jsstring where
  "msg_channel_error = [0x53, 0x53, 0x45, 0x8FDE, 0x63A5, 0x9519, 0x8BEF]"

definition msg_retry :: jsstring where
  "msg_retry = [0x5C1D, 0x8BD5, 0x91CD, 0x65B0, 0x8FDE, 0x63A5, 0x53, 0x53, 0x45, 0x2E, 0x2E, 0x2E]"

definition status_on :: jsstring where
  "status_on = [0x53, 0x53, 0x45, 0x5DF2, 0x8FDE, 0x63A5]"

definition status_off :: jsstring where
  "status_off = [0x53, 0x53, 0x45, 0x65AD, 0x5F00]"

definition updateSSEStatus :: "bool \<Rightarrow> view \<Rightarrow> view" where
  "updateSSEStatus isConnected s =
     s\<lparr>sseConnected := isConnected, sseStatus := (if isConnected then status_on else status_off)\<rparr>"

text \<open>
  \<open>initSSE\<close> (20 to 63): the channel in use, if any, is closed and forgotten, and a new one
  is opened under a new client id. \<open>sseConnection\<close> holds the \<open>readyState\<close> of the
  channel the global points to; \<open>ids_drawn\<close> counts the channels opened so far.
\<close>

definition initSSE :: "env \<Rightarrow> view \<Rightarrow> view" where
  "initSSE E s =
     (addLog msg_connecting ''info''
        (s\<lparr>currentClientId := Some (randomId E (ids_drawn s)),
           ids_drawn := Suc (ids_drawn s)\<rparr>))
     \<lparr>sseConnection := Some CONNECTING\<rparr>"

text \<open>
  The \<open>onopen\<close> handler (32 to 35), after the browser has opened the channel. The
  \<open>onclose\<close> handler of line 59 has no counterpart here: an \<open>EventSource\<close> fires no
  such event.
\<close>

definition channel_open :: "view \<Rightarrow> view" where
  "channel_open s =
     updateSSEStatus True (addLog msg_connected ''success'' (s\<lparr>sseConnection := Some OPEN\<rparr>))"

text \<open>
  The \<open>onerror\<close> handler (46 to 57). The browser has put the channel in state \<open>r\<close>
  (\<open>CONNECTING\<close> when it retries by itself, \<open>CLOSED\<close> when it gave up, after which the
  channel fires no further event); the handler arms a timer. \<open>timers\<close> is the number of
  armed timers that have not fired yet.
\<close>

definition channel_error :: "ready \<Rightarrow> view \<Rightarrow> view" where
  "channel_error r s =
     (updateSSEStatus False (addLog msg_channel_error ''error'' (s\<lparr>sseConnection := Some r\<rparr>)))
     \<lparr>timers := Suc (timers s)\<rparr>"

text \<open>The callback of the timer (51 to 56), when one of the armed timers fires.\<close>

definition timer_fires :: "env \<Rightarrow> view \<Rightarrow> view" where
  "timer_fires E s =
     (case timers s of
        0 \<Rightarrow> s
      | Suc n \<Rightarrow>
          (let s1 = s\<lparr>timers := n\<rparr>
           in if sseConnection s1 = None \<or> sseConnection s1 = Some CLOSED
              then initSSE E (addLog msg_retry ''warning'' s1)
              else s1))"

section \<open>A sample environment and sample pages\<close>

text \<open>
  The examples run in an environment without the markdown library, so that
  \<open>parseMarkdown\<close> takes its fallback. Its functions are right on what the examples give
  them: one-line texts that are plain or a level-one heading (line 389 of the source),
  markup without \<open>h2\<close> and \<open>h3\<close>, whole numbers, inputs made of digits.
\<close>

fun strip_tags :: "bool \<Rightarrow> jsstring \<Rightarrow> jsstring" where
  "strip_tags inside [] = []"
| "strip_tags inside (c # cs) =
     (if inside then (if c = 0x3E then strip_tags False cs else strip_tags True cs)
      else if c = 0x3C then strip_tags True cs
      else c # strip_tags False cs)"

definition sample_regexes :: "jsstring \<Rightarrow> jsstring" where
  "sample_regexes t =
     (case t of
        a # b # rest \<Rightarrow>
          if a = 0x23 \<and> b = 0x20
          then str ''<h1 style=\"color: #2c3e50; margin: 24px 0 12px 0;\">'' @ rest @ str ''</h1>''
          else t
      | _ \<Rightarrow> t)"

definition sample_number :: "jsnum \<Rightarrow> jsstring" where
  "sample_number n =
     (case n of
        NaN \<Rightarrow> str ''NaN''
      | Fin r \<Rightarrow> str (dec \<lfloor>r\<rfloor>)
      | PosInf \<Rightarrow> str ''Infinity''
      | NegInf \<Rightarrow> str ''-Infinity'')"

definition sample_fixed :: "nat \<Rightarrow> jsnum \<Rightarrow> jsstring" where
  "sample_fixed d n =
     (case n of
        Fin r \<Rightarrow> str (dec \<lfloor>r\<rfloor>) @ (if d = 0 then [] else 0x2E # replicate d 0x30)
      | _ \<Rightarrow> sample_number n)"

definition sample_float :: "jsstring \<Rightarrow> jsnum" where
  "sample_float t =
     (if t \<noteq> [] \<and> list_all (\<lambda>c. 0x30 \<le> c \<and> c \<le> 0x39) t
      then Fin (of_nat (foldl (\<lambda>a c. 10 * a + (c - 0x30)) 0 t))
      else NaN)"

definition sample_env :: env where
  "sample_env =
     \<lparr>marked = None,
      markdownRegexes = sample_regexes,
      domText = (\<lambda>c. case c of Html m \<Rightarrow> strip_tags False m | Text t \<Rightarrow> t | _ \<Rightarrow> []),
      retitle = (\<lambda>tag new m. None),
      toFixed = sample_fixed,
      numToString = sample_number,
      times100 = (\<lambda>v. case v of JNum (Fin r) \<Rightarrow> Fin (r * 100) | JNum n \<Rightarrow> n | _ \<Rightarrow> NaN),
      readFloat = sample_float,
      readNumber = sample_float,
      randomId = (\<lambda>n. str ''client_sample_'' @ str (dec (int n)))\<rparr>"

definition leaf :: "content \<Rightarrow> string list \<Rightarrow> element" where
  "leaf c up =
     \<lparr>content = c, classes = {}, whiteSpace = None, heading = None, wired = False, anc = up\<rparr>"

text \<open>The page before anything ran: an empty results area, no slots.\<close>

definition blank_page :: view where
  "blank_page =
     \<lparr>isAnalyzing = False, sseConnection = None, currentClientId = None, ids_drawn = 0,
      timers = 0, sseConnected = False, sseStatus = status_off, log = [],
      analyzeBtn_disabled = False, batchAnalyzeBtn_disabled = False,
      systemStatus_class = ''status-indicator status-ready'', systemStatus_text = [],
      singleProgress = \<lparr>display = ''none'', fill = ''0%''\<rparr>,
      batchProgress = \<lparr>display = ''none'', fill = ''0%''\<rparr>,
      currentStock_display = ''none'',
      stockCode_value = [], positionPercent_value = [], avgPrice_value = [],
      enableStreaming_checked = True, stockList_value = [],
      journal = [],
      elems = [''resultsContent'' \<mapsto> leaf (Tmpl ''empty-state'' []) []]\<rparr>"

text \<open>
  The ids of the display fields \<open>updateNonAIContent\<close> writes, and the page once the
  fragment with these fields and an empty narrative container is in the results area.
\<close>

definition field_ids :: "string list" where
  "field_ids = [''analysisStatus'', ''stockCodeDisplay'', ''currentPriceDisplay'',
     ''priceChangeDisplay'', ''rsiDisplay'', ''trendDisplay'', ''macdDisplay'',
     ''sentimentTrendDisplay'', ''newsCountDisplay'', ''confidenceDisplay'']"

definition single_page :: view where
  "single_page =
     blank_page\<lparr>elems := (\<lambda>i.
        if i = ''resultsContent'' then Some (leaf (Tmpl ''result-content'' []) [])
        else if i = ''aiStreamContent''
        then Some ((leaf (Text []) [''resultsContent''])
                     \<lparr>whiteSpace := Some ''pre-wrap'', heading := Some (Html title_live)\<rparr>)
        else if i \<in> set field_ids then Some (leaf (Text (str ''--'')) [''resultsContent''])
        else None)\<rparr>"

text \<open>A page with the slots \<open>0\<close> and \<open>1\<close>, hidden, next to the results area.\<close>

definition page_slot :: "int \<Rightarrow> (string \<times> element) list" where
  "page_slot i =
     [(slot_id i, (leaf (Tmpl ''slot'' []) [])\<lparr>classes := {''hidden''}\<rparr>),
      (title_id i, leaf (Text []) [slot_id i]),
      (financial_id i, leaf (Text (str ''--'')) [slot_id i]),
      (news_id i, leaf (Text (str ''--'')) [slot_id i]),
      (completeness_id i, leaf (Text (str ''--'')) [slot_id i]),
      (card_id i, leaf (Text []) [slot_id i])]"

definition batch_page :: view where
  "batch_page =
     blank_page\<lparr>elems := map_of ((''resultsContent'', leaf (Tmpl ''empty-state'' []) [])
                                # page_slot 0 @ page_slot 1)\<rparr>"

text \<open>
  Payloads: a fragment of the stream, and a report like the one of the specification's
  example, with a stock code and a price and without technical or sentiment analysis
  (whole numbers stand in for the example's prices).
\<close>

definition fragment :: "jsstring \<Rightarrow> json" where
  "fragment f = JObj [(''content'', JStr f)]"

definition sample_report :: json where
  "sample_report =
     JObj [(''stock_code'', JStr (str ''600000'')),
           (''stock_name'', JStr (str ''SPDB'')),
           (''data_quality'', JObj []),
           (''price_info'', JObj [(''current_price'', JNum (Fin 10)),
                                  (''price_change'', JNum (Fin (- 1)))])]"

section \<open>Notions the properties are stated with\<close>

text \<open>What the narrative container shows, if it exists.\<close>

definition narrative :: "view \<Rightarrow> content option" where
  "narrative s = map_option content (elems s ''aiStreamContent'')"

text \<open>The report brings a narrative of its own (line 373).\<close>

definition carries_narrative :: "json \<Rightarrow> bool" where
  "carries_narrative report =
     (case field report ''ai_content'' of Some v \<Rightarrow> truthy v | None \<Rightarrow> False)"

text \<open>An element that is not nested in any of the listed elements.\<close>

definition apart :: "string list \<Rightarrow> element \<Rightarrow> bool" where
  "apart ids e \<longleftrightarrow> set (anc e) \<inter> set ids = {}"

text \<open>
  A target no fragment has reached yet: an empty container, or none and a results area to
  create it in; neither sits inside a display field.
\<close>

definition fresh_target :: "view \<Rightarrow> bool" where
  "fresh_target s =
     (case elems s ''aiStreamContent'' of
        Some e \<Rightarrow> content e = Text [] \<and> apart field_ids e
      | None \<Rightarrow>
          (case elems s ''resultsContent'' of Some rc \<Rightarrow> apart field_ids rc | None \<Rightarrow> False))"

text \<open>Sample states: an analysis in flight; a narrative that has streamed; an open channel.\<close>

definition busy_page :: view where
  "busy_page = blank_page\<lparr>isAnalyzing := True, analyzeBtn_disabled := True\<rparr>"

definition streamed_page :: view where
  "streamed_page = state_of (feed sample_env [fragment (str ''# T'')] single_page)"

definition open_page :: view where
  "open_page = channel_open (initSSE sample_env blank_page)"



definition threw :: "result \<Rightarrow> bool" where
  "threw r = (case r of Threw s \<Rightarrow> True | Done s \<Rightarrow> False)"






text \<open>
  The elements a final result writes, and a page on which none of them is nested in
  another (or in itself).
\<close>

definition view_ids :: "string list" where
  "view_ids = ''aiStreamContent'' # field_ids"

definition flat :: "view \<Rightarrow> bool" where
  "flat s \<longleftrightarrow> (\<forall>i\<in>set view_ids. \<forall>e. elems s i = Some e \<longrightarrow> apart view_ids e)"

text \<open>
  No element of the document is nested in element \<open>i\<close>; element \<open>i\<close> shows a text and
  nothing is nested in it.
\<close>

definition settled :: "string \<Rightarrow> (string \<Rightarrow> element option) \<Rightarrow> bool" where
  "settled i m \<longleftrightarrow> (\<forall>j e. m j = Some e \<longrightarrow> i \<notin> set (anc e))"

definition shows_text :: "string \<Rightarrow> jsstring \<Rightarrow> view \<Rightarrow> bool" where
  "shows_text i t s \<longleftrightarrow> (\<exists>e. elems s i = Some e \<and> content e = Text t) \<and> settled i (elems s)"

text \<open>
  The steps of \<open>updateNonAIContent\<close> once more, for the proofs: the banner, the nine
  assignments of lines 358 to 370 as a list, the narrative of the report. Lemma
  \<open>updateNonAIContent_steps\<close> shows that they make up the function defined above.
\<close>

fun write_all :: "(string \<times> jsstring option) list \<Rightarrow> view \<Rightarrow> result" where
  "write_all [] s = Done s"
| "write_all ((i, v) # ws) s = and_then (set_text i v s) (write_all ws)"

definition field_writes :: "env \<Rightarrow> json \<Rightarrow> (string \<times> jsstring option) list" where
  "field_writes E report =
     [(''stockCodeDisplay'', wrap lbl_code [] (map_option (tostr E) (field report ''stock_code''))),
      (''currentPriceDisplay'',
         wrap lbl_price [] (Option.bind (chain report ''price_info'' ''current_price'') (fixed E 2))),
      (''priceChangeDisplay'',
         wrap lbl_change (str ''%'') (Option.bind (chain report ''price_info'' ''price_change'') (fixed E 2))),
      (''rsiDisplay'',
         wrap (str ''RSI: '') [] (Option.bind (chain report ''technical_analysis'' ''rsi'') (fixed E 1))),
      (''trendDisplay'',
         wrap lbl_trend [] (map_option (\<lambda>v. or_else E v txt_unknown)
            (chain report ''technical_analysis'' ''ma_trend''))),
      (''macdDisplay'',
         wrap (str ''MACD: '') [] (map_option (\<lambda>v. or_else E v txt_unknown)
            (chain report ''technical_analysis'' ''macd_signal''))),
      (''sentimentTrendDisplay'',
         wrap lbl_sentiment [] (map_option (\<lambda>v. or_else E v txt_neutral)
            (chain report ''sentiment_analysis'' ''sentiment_trend''))),
      (''newsCountDisplay'',
         wrap lbl_news sfx_news (map_option (\<lambda>v. or_else E v (tostr E (JNum (Fin 0))))
            (chain report ''sentiment_analysis'' ''total_analyzed''))),
      (''confidenceDisplay'',
         wrap lbl_confidence (str ''%'') (map_option (\<lambda>v. toFixed E 1 (percent E v))
            (chain report ''sentiment_analysis'' ''confidence_score'')))]"

definition write_status :: "view \<Rightarrow> view" where
  "write_status s =
     (case elems s ''analysisStatus'' of
        None \<Rightarrow> s
      | Some e \<Rightarrow> put_content ''analysisStatus'' e (Text status_done) s)"

definition write_narrative :: "env \<Rightarrow> json \<Rightarrow> view \<Rightarrow> result" where
  "write_narrative E report s =
     (case field report ''ai_content'' of
        None \<Rightarrow> Threw s
      | Some v \<Rightarrow> if truthy v then set_text ''aiStreamContent'' (Some (tostr E v)) s else Done s)"

text \<open>What a final result with a narrative of its own leaves behind.\<close>

definition finalized :: "env \<Rightarrow> json \<Rightarrow> view \<Rightarrow> bool" where
  "finalized E report s \<longleftrightarrow>
     flat s \<and> settled ''aiStreamContent'' (elems s) \<and>
     (\<forall>(i, u)\<in>set (field_writes E report). \<exists>t. u = Some t \<and> shows_text i t s) \<and>
     (elems s ''analysisStatus'' = None \<or> shows_text ''analysisStatus'' status_done s)"

text \<open>
  More samples: two reports that bring their narrative (the streamed text itself, and
  another text), the page after the second was finalised; the page after the plain report
  was finalised, and the markup its heading was rendered to.
\<close>

definition heading_report :: json where
  "heading_report =
     JObj [(''stock_code'', JStr (str ''600000'')), (''ai_content'', JStr (str ''# T''))]"

definition narrated_report :: json where
  "narrated_report = JObj [(''stock_code'', JStr (str ''600000'')), (''ai_content'', JStr (str ''AB''))]"

definition rendered_page :: view where
  "rendered_page = state_of (displayResults sample_env sample_report streamed_page)"

definition heading_markup :: jsstring where
  "heading_markup = str ''<h1 style=\"color: #2c3e50; margin: 24px 0 12px 0;\">T</h1>''"

definition narrated_page :: view where
  "narrated_page = state_of (displayResults sample_env narrated_report streamed_page)"

section \<open>Basic facts\<close>

lemma str_simps: "str [] = []" "str (c # cs) = of_char c # str cs"
  by (simp_all add: str_def)

lemma and_then_keeps:
  assumes "elems (state_of r) j = X"
    and "\<And>s'. elems s' j = X \<Longrightarrow> elems (state_of (f s')) j = X"
  shows "elems (state_of (and_then r f)) j = X"
  using assms by (cases r) auto

lemma set_text_other:
  "j \<noteq> i \<Longrightarrow> elems s j = Some e \<Longrightarrow> i \<notin> set (anc e) \<Longrightarrow>
   elems (state_of (set_text i v s)) j = Some e"
  by (auto simp: set_text_def put_content_def drop_inside_def split: option.splits)

section \<open>Streaming and the final result\<close>

lemma updateNonAIContent_keeps:
  assumes "apart field_ids e" and "\<not> carries_narrative report"
    and "elems s ''aiStreamContent'' = Some e"
  shows "elems (state_of (updateNonAIContent E report s)) ''aiStreamContent'' = Some e"
  unfolding updateNonAIContent_def using assms
  apply (intro and_then_keeps)
            apply (auto simp: set_text_other apart_def field_ids_def carries_narrative_def
      put_content_def drop_inside_def split: option.splits)
  done

lemma displayResults_blank:
  "(case elems s ''aiStreamContent'' of
      None \<Rightarrow> True
    | Some e \<Rightarrow> trim (textContent E (content e)) = []) \<Longrightarrow>
   displayResults E report s = Done s"
  by (auto simp: displayResults_def split: option.splits)

lemma displayResults_text:
  assumes "elems s ''aiStreamContent'' = Some e" "content e = Text t" "trim t \<noteq> []"
    "apart field_ids e" "\<not> carries_narrative report" "parseMarkdown E (JStr t) = Some m"
  shows "narrative (state_of (displayResults E report s)) = Some (Html m)"
proof -
  let ?e = "retitle_report E (mark_complete E e)"
  have c: "content ?e = Text t"
    using assms(2) by (auto simp: retitle_report_def mark_complete_def split: option.splits)
  have a: "anc ?e = anc e"
    by (auto simp: retitle_report_def mark_complete_def split: option.splits content.splits)
  show ?thesis
    using assms c a
    by (simp add: displayResults_def narrative_def textContent_def Let_def
        updateNonAIContent_keeps [where e = "?e\<lparr>classes := insert ''ai-analysis-content'' (classes ?e),
           whiteSpace := Some ''normal'', content := Html m\<rparr>"]
        put_content_def apart_def)
qed

lemma appendStream_text:
  assumes "elems s ''aiStreamContent'' = Some e" "content e = Text b"
  shows "\<exists>s' e'. appendStream E (fragment f) s = Done s' \<and>
           elems s' ''aiStreamContent'' = Some e' \<and> content e' = Text (b @ f) \<and> anc e' = anc e"
  using assms
  by (auto simp: appendStream_def fragment_def put_content_def textContent_def)

lemma feed_existing:
  "elems s ''aiStreamContent'' = Some e \<Longrightarrow> content e = Text b \<Longrightarrow>
   \<exists>s' e'. feed E (map fragment fs) s = Done s' \<and> elems s' ''aiStreamContent'' = Some e' \<and>
           content e' = Text (b @ concat fs) \<and> anc e' = anc e"
proof (induction fs arbitrary: s e b)
  case Nil
  then show ?case by simp
next
  case (Cons f fs)
  from appendStream_text [OF Cons.prems, of E f]
  obtain s1 e1 where 1: "appendStream E (fragment f) s = Done s1"
    "elems s1 ''aiStreamContent'' = Some e1" "content e1 = Text (b @ f)" "anc e1 = anc e"
    by blast
  from Cons.IH [OF 1(2) 1(3)] 1 Cons.prems show ?case
    by (auto simp: handleAIStream_def)
qed

lemma feed_fresh:
  assumes "fresh_target s"
  shows "\<exists>s'. feed E (map fragment fs) s = Done s' \<and>
           (fs = [] \<longrightarrow> s' = s) \<and>
           (fs \<noteq> [] \<longrightarrow> (\<exists>e'. elems s' ''aiStreamContent'' = Some e' \<and>
              content e' = Text (concat fs) \<and> apart field_ids e'))"
proof (cases "elems s ''aiStreamContent''")
  case (Some e)
  with assms have "content e = Text []" "apart field_ids e"
    by (auto simp: fresh_target_def)
  with feed_existing [OF Some this(1), of E fs] show ?thesis
    by (cases fs) (auto simp: apart_def)
next
  case None
  with assms obtain rc where rc: "elems s ''resultsContent'' = Some rc" "apart field_ids rc"
    by (auto simp: fresh_target_def split: option.splits)
  show ?thesis
  proof (cases fs)
    case Nil
    then show ?thesis by simp
  next
    case (Cons f fs')
    let ?e = "\<lparr>content = Text [], classes = {}, whiteSpace = Some ''pre-wrap'',
                heading = Some (Html title_live), wired = False,
                anc = ''resultsContent'' # anc rc\<rparr>"
    let ?s = "s\<lparr>elems := (elems s)(''resultsContent'' \<mapsto>
                 rc\<lparr>content := Appended (content rc) (Tmpl ''ai-stream-scaffold'' [])\<rparr>,
               ''aiStreamContent'' \<mapsto> ?e)\<rparr>"
    have h: "handleAIStream E (fragment f) s = appendStream E (fragment f) ?s"
      using None rc by (simp add: handleAIStream_def)
    have "elems ?s ''aiStreamContent'' = Some ?e" "content ?e = Text []"
      by simp_all
    from appendStream_text [OF this, of E f]
    obtain s1 e1 where 1: "appendStream E (fragment f) ?s = Done s1"
      "elems s1 ''aiStreamContent'' = Some e1" "content e1 = Text f"
      "anc e1 = ''resultsContent'' # anc rc"
      by auto
    from feed_existing [OF 1(2) 1(3), of E fs'] 1 h rc Cons show ?thesis
      by (auto simp: apart_def field_ids_def)
  qed
qed

lemma blank_page_fresh: "fresh_target blank_page"
  by (simp add: fresh_target_def blank_page_def apart_def leaf_def)

lemma streamed_page_elems:
  "elems streamed_page = (elems single_page)(''aiStreamContent'' \<mapsto>
      (leaf (Text (str ''# T'')) [''resultsContent''])
         \<lparr>whiteSpace := Some ''pre-wrap'', heading := Some (Html title_live)\<rparr>)"
  by (simp add: streamed_page_def handleAIStream_def appendStream_def single_page_def fragment_def
        put_content_def textContent_def drop_inside_def leaf_def field_ids_def fun_eq_iff)

text \<open>
  Fragments \<open>F1..Fn\<close> sent to a fresh target are all handled and leave their
  concatenation, in order, as the text of the container. For a report that brings no
  narrative of its own, the final result then renders exactly that text when it has a
  character that is not white space and the renderer returns; when the text is blank the
  final result returns at once and changes nothing.
\<close>

lemma stream_accumulates:
  assumes "fresh_target s"
  shows "\<exists>s1. feed E (map fragment fs) s = Done s1 \<and>
     (fs \<noteq> [] \<longrightarrow> narrative s1 = Some (Text (concat fs))) \<and>
     (trim (concat fs) = [] \<longrightarrow> displayResults E report s1 = Done s1) \<and>
     (trim (concat fs) \<noteq> [] \<longrightarrow> \<not> carries_narrative report \<longrightarrow>
        (\<forall>m. parseMarkdown E (JStr (concat fs)) = Some m \<longrightarrow>
           narrative (state_of (displayResults E report s1)) = Some (Html m)))"
proof -
  from feed_fresh [OF assms, of E fs] obtain s1 where
    f: "feed E (map fragment fs) s = Done s1" and
    e: "fs = [] \<longrightarrow> s1 = s" and
    n: "fs \<noteq> [] \<longrightarrow> (\<exists>e'. elems s1 ''aiStreamContent'' = Some e' \<and>
              content e' = Text (concat fs) \<and> apart field_ids e')"
    by blast
  from n have buffer: "fs \<noteq> [] \<longrightarrow> narrative s1 = Some (Text (concat fs))"
    by (auto simp: narrative_def)
  have blank: "displayResults E report s1 = Done s1" if "trim (concat fs) = []"
  proof (cases "fs = []")
    case True
    with e assms show ?thesis
      by (auto intro!: displayResults_blank
          simp: fresh_target_def textContent_def trim_def split: option.splits)
  next
    case False
    with n that show ?thesis
      by (auto intro!: displayResults_blank simp: textContent_def)
  qed
  have full: "narrative (state_of (displayResults E report s1)) = Some (Html m)"
    if "trim (concat fs) \<noteq> []" "\<not> carries_narrative report"
      "parseMarkdown E (JStr (concat fs)) = Some m" for m
  proof -
    from that(1) have "fs \<noteq> []"
      by (auto simp: trim_def)
    with n obtain e' where "elems s1 ''aiStreamContent'' = Some e'"
      "content e' = Text (concat fs)" "apart field_ids e'"
      by blast
    from displayResults_text [OF this(1) this(2) that(1) this(3) that(2) that(3)]
    show ?thesis .
  qed
  from f buffer blank full show ?thesis
    by blast
qed

text \<open>
  C1 fails for a report that brings its narrative. The fragments \<open># \<close> and \<open>T\<close> are
  streamed to the page with its display fields, then the final result for stock \<open>600000\<close>
  arrives with the same text as its \<open>ai_content\<close>. The concatenation \<open># T\<close> renders to
  a heading that reads \<open>T\<close>; \<open>displayResults\<close> puts this heading in the container, and
  \<open>updateNonAIContent\<close>, called to update the other parts only, overwrites it with the raw
  text of the report (lines 372 to 377). The container ends with the text \<open># T\<close>, not
  with the rendering.
\<close>

theorem final_overwrites_rendering:
  "feed sample_env (map fragment [str ''# '', str ''T'']) single_page = Done streamed_page \<and>
   narrative streamed_page = Some (Text (concat [str ''# '', str ''T''])) \<and>
   parseMarkdown sample_env (JStr (concat [str ''# '', str ''T''])) = Some heading_markup \<and>
   textContent sample_env (Html heading_markup) = str ''T'' \<and>
   \<not> threw (displayResults sample_env heading_report streamed_page) \<and>
   narrative (state_of (displayResults sample_env heading_report streamed_page))
     = Some (Text (str ''# T''))"
  by (simp add: heading_report_def wrap_def chain_def
        or_else_def leaf_def Let_def str_simps sample_env_def put_content_def drop_inside_def
        displayResults_def streamed_page_elems single_page_def field_ids_def textContent_def
        trim_def js_white_def mark_complete_def retitle_report_def parseMarkdown_def
        simpleMarkdownParse_def sample_regexes_def updateNonAIContent_def fixed_def percent_def
        set_text_def narrative_def threw_def heading_markup_def streamed_page_def
        handleAIStream_def appendStream_def fragment_def fun_eq_iff)

text \<open>
  C3, as the code has it. A final result that finds no narrative container, or one whose
  text is empty or blank, returns without throwing and leaves the whole view as it was:
  no display field is written.
\<close>

theorem final_without_stream:
  assumes "narrative s = None \<or> (\<exists>c. narrative s = Some c \<and> trim (textContent E c) = [])"
  shows "displayResults E report s = Done s"
  using assms by (auto intro!: displayResults_blank simp: narrative_def split: option.splits)

theorem final_without_stream_witness:
  "narrative single_page = Some (Text []) \<and> trim (textContent sample_env (Text [])) = [] \<and>
   displayResults sample_env sample_report single_page = Done single_page"
proof -
  have n: "narrative single_page = Some (Text [])"
    by (simp add: narrative_def single_page_def leaf_def)
  have t: "trim (textContent sample_env (Text [])) = []"
    by (simp add: trim_def textContent_def)
  from final_without_stream [of single_page sample_env sample_report] n t
  show ?thesis
    by simp
qed

text \<open>
  C3 as stated fails: on the page with its display fields and an empty narrative, the final
  result for stock \<open>600000\<close> does not put the stock code in its field.
\<close>

theorem final_without_stream_counterexample:
  "map_option content
     (elems (state_of (displayResults sample_env sample_report single_page)) ''stockCodeDisplay'')
   \<noteq> Some (Text (lbl_code @ str ''600000''))"
  by (simp add: displayResults_def single_page_def textContent_def trim_def field_ids_def
      leaf_def str_simps)

section \<open>Submissions\<close>

text \<open>
  C8. A single submission whose position percentage reads as a number greater than zero
  and whose average price input is empty is turned down on the spot, in the client (where a
  blank input counts as empty) and in its older copy: the view is what it was but for one
  more warning in the log, so no request has left, the flag \<open>isAnalyzing\<close> and the
  submit button are untouched.
\<close>

theorem position_without_price:
  "(num_gt0 (parseFloat E (positionPercent_value s)) \<longrightarrow> trim (avgPrice_value s) = [] \<longrightarrow>
      analyzeSingleStock E s =
        s\<lparr>log := log s @ [(''warning'',
           if trim (stockCode_value s) = [] then msg_need_code else msg_need_avg)]\<rparr>) \<and>
   (num_gt0 (toNumber E (positionPercent_value s)) \<longrightarrow> avgPrice_value s = [] \<longrightarrow>
      analyzeSingleStock_static E s =
        Done (s\<lparr>log := log s @ [(''warning'',
           if trim (stockCode_value s) = [] then msg_need_code else msg_need_avg)]\<rparr>))"
proof -
  have "num_truthy n" if "num_gt0 n" for n
    using that by (cases n) auto
  moreover have "positionPercent_value s \<noteq> []"
    if "num_gt0 (toNumber E (positionPercent_value s))"
    using that by (auto simp: toNumber_def trim_def)
  ultimately show ?thesis
    by (auto simp: analyzeSingleStock_def analyzeSingleStock_static_def addLog_def Let_def
        parseFloat_def)
qed

theorem position_without_price_witness:
  "num_gt0 (parseFloat sample_env (str ''30'')) \<and> num_gt0 (toNumber sample_env (str ''30'')) \<and>
   analyzeSingleStock sample_env
      (blank_page\<lparr>stockCode_value := str ''000001'', positionPercent_value := str ''30''\<rparr>)
     = blank_page\<lparr>stockCode_value := str ''000001'', positionPercent_value := str ''30'',
                   log := [(''warning'', msg_need_avg)]\<rparr> \<and>
   analyzeSingleStock_static sample_env
      (blank_page\<lparr>stockCode_value := str ''000001'', positionPercent_value := str ''30''\<rparr>)
     = Done (blank_page\<lparr>stockCode_value := str ''000001'', positionPercent_value := str ''30'',
                         log := [(''warning'', msg_need_avg)]\<rparr>) \<and>
   requests (blank_page\<lparr>stockCode_value := str ''000001'', positionPercent_value := str ''30'',
                        log := [(''warning'', msg_need_avg)]\<rparr>) = [] \<and>
   \<not> isAnalyzing (blank_page\<lparr>stockCode_value := str ''000001'',
                      positionPercent_value := str ''30'', log := [(''warning'', msg_need_avg)]\<rparr>)"
proof -
  let ?s = "blank_page\<lparr>stockCode_value := str ''000001'', positionPercent_value := str ''30''\<rparr>"
  have p: "num_gt0 (parseFloat sample_env (positionPercent_value ?s))"
    "num_gt0 (toNumber sample_env (positionPercent_value ?s))"
    by (simp_all add: parseFloat_def toNumber_def sample_env_def sample_float_def trim_def
        js_white_def str_simps)
  have a: "trim (avgPrice_value ?s) = []" "avgPrice_value ?s = []"
    by (simp_all add: blank_page_def trim_def)
  have c: "trim (stockCode_value ?s) \<noteq> []"
    by (simp add: trim_def js_white_def str_simps)
  from position_without_price [of sample_env ?s] p a c show ?thesis
    by (simp add: blank_page_def requests_def)
qed

text \<open>
  C4, as the code has it. A submission made while an analysis is in flight sends nothing
  and changes nothing but the log. The single form logs the busy warning once its inputs
  have passed the checks that come first (a stock code; an average price when the position
  is positive), after the note on the default position when no position is given; the
  batch form logs it once the list is not blank. Otherwise the warning of the failed check
  is logged in its place.
\<close>

theorem busy_submission:
  assumes "isAnalyzing s"
  shows "analyzeSingleStock E s =
     s\<lparr>log := log s @
        (if trim (stockCode_value s) = [] then [(''warning'', msg_need_code)]
         else if \<not> num_truthy (parseFloat E (positionPercent_value s))
         then [(''info'', msg_default_position), (''warning'', msg_busy)]
         else if num_gt0 (parseFloat E (positionPercent_value s)) \<and>
                 \<not> num_truthy (parseFloat E (avgPrice_value s))
         then [(''warning'', msg_need_avg)]
         else [(''warning'', msg_busy)])\<rparr>
   \<and> analyzeBatchStocks s =
     s\<lparr>log := log s @
        [(''warning'', if trim (stockList_value s) = [] then msg_need_list else msg_busy)]\<rparr>"
  using assms
  by (simp add: analyzeSingleStock_def analyzeBatchStocks_def submitSingle_def addLog_def Let_def)

theorem busy_submission_witness:
  "isAnalyzing busy_page \<and>
   analyzeSingleStock sample_env (busy_page\<lparr>stockCode_value := str ''000001''\<rparr>)
     = busy_page\<lparr>stockCode_value := str ''000001'',
                  log := [(''info'', msg_default_position), (''warning'', msg_busy)]\<rparr> \<and>
   analyzeBatchStocks (busy_page\<lparr>stockList_value := str ''000001''\<rparr>)
     = busy_page\<lparr>stockList_value := str ''000001'', log := [(''warning'', msg_busy)]\<rparr>"
proof -
  have t: "trim (str ''000001'') \<noteq> []"
    by (simp add: trim_def js_white_def str_simps)
  have b: "isAnalyzing (busy_page\<lparr>stockCode_value := str ''000001''\<rparr>)"
    "isAnalyzing (busy_page\<lparr>stockList_value := str ''000001''\<rparr>)"
    by (simp_all add: busy_page_def)
  from busy_submission [OF b(1), where E = sample_env]
       busy_submission [OF b(2), where E = sample_env] t
  show ?thesis
    by (simp add: parseFloat_def trim_def busy_page_def blank_page_def)
qed

text \<open>
  C4 as stated fails: with an analysis in flight and no stock code typed, the submission
  logs no busy warning.
\<close>

theorem busy_submission_counterexample:
  "(''warning'', msg_busy) \<notin> set (log (analyzeSingleStock sample_env busy_page))"
  by (simp add: analyzeSingleStock_def busy_page_def blank_page_def trim_def addLog_def
        msg_need_code_def msg_busy_def)

section \<open>Failure of an analysis\<close>

lemma field_None: "field data k = None \<longleftrightarrow> data = JUndef \<or> data = JNull"
  by (cases data) simp_all

text \<open>
  C9, as the code has it. The flag \<open>isAnalyzing\<close> is lowered and both submit buttons are
  enabled first, whatever the event and the page. If the page has the results area and
  the payload is anything but \<open>null\<close> or \<open>undefined\<close>, the handler returns, the results
  area holds the error panel with the error text (or the fallback), and every element
  that was inside the results area, the narrative container and the display fields with
  it, is gone. If the payload is \<open>null\<close> or missing, reading its \<open>error\<close> throws before
  the results area is assigned, and so does the assignment on a page without results
  area: the document and the log stay as they were.
\<close>

theorem analysis_error_discards:
  "(\<forall>rc err. elems s ''resultsContent'' = Some rc \<longrightarrow> field data ''error'' = Some err \<longrightarrow>
       (\<exists>s'. onAnalysisError E data s = Done s' \<and>
          \<not> isAnalyzing s' \<and> \<not> analyzeBtn_disabled s' \<and> \<not> batchAnalyzeBtn_disabled s' \<and>
          map_option content (elems s' ''resultsContent'') =
            Some (Tmpl ''error-panel'' [or_else E err txt_unknown_error]) \<and>
          (\<forall>i e. i \<noteq> ''resultsContent'' \<longrightarrow> elems s i = Some e \<longrightarrow>
             ''resultsContent'' \<in> set (anc e) \<longrightarrow> elems s' i = None))) \<and>
   (data = JUndef \<or> data = JNull \<or> elems s ''resultsContent'' = None \<longrightarrow>
       (\<exists>s'. onAnalysisError E data s = Threw s' \<and>
          \<not> isAnalyzing s' \<and> \<not> analyzeBtn_disabled s' \<and> \<not> batchAnalyzeBtn_disabled s' \<and>
          elems s' = elems s \<and> log s' = log s))"
  by (auto simp: onAnalysisError_def Let_def addLog_def put_content_def drop_inside_def
      split: option.splits)

theorem analysis_error_discards_witness:
  "elems streamed_page ''resultsContent'' \<noteq> None \<and>
   narrative streamed_page = Some (Text (str ''# T'')) \<and>
   elems streamed_page ''stockCodeDisplay'' \<noteq> None \<and>
   field (JObj [(''error'', JStr (str ''timeout''))]) ''error'' = Some (JStr (str ''timeout'')) \<and>
   narrative (state_of (onAnalysisError sample_env
      (JObj [(''error'', JStr (str ''timeout''))]) streamed_page)) = None \<and>
   elems (state_of (onAnalysisError sample_env
      (JObj [(''error'', JStr (str ''timeout''))]) streamed_page)) ''stockCodeDisplay'' = None \<and>
   \<not> isAnalyzing (state_of (onAnalysisError sample_env
      (JObj [(''error'', JStr (str ''timeout''))]) streamed_page)) \<and>
   threw (onAnalysisError sample_env JNull streamed_page) \<and>
   elems (state_of (onAnalysisError sample_env JNull streamed_page)) = elems streamed_page \<and>
   \<not> isAnalyzing (state_of (onAnalysisError sample_env JNull streamed_page))"
proof -
  have r: "elems streamed_page ''resultsContent'' = Some (leaf (Tmpl ''result-content'' []) [])"
    by (simp add: streamed_page_elems single_page_def)
  have n: "elems streamed_page ''aiStreamContent'' =
      Some ((leaf (Text (str ''# T'')) [''resultsContent''])
         \<lparr>whiteSpace := Some ''pre-wrap'', heading := Some (Html title_live)\<rparr>)"
    by (simp add: streamed_page_elems)
  have f: "elems streamed_page ''stockCodeDisplay'' =
      Some (leaf (Text (str ''--'')) [''resultsContent''])"
    by (simp add: streamed_page_elems single_page_def field_ids_def)
  from analysis_error_discards [where s = streamed_page and E = sample_env
      and data = "JObj [(''error'', JStr (str ''timeout''))]"] r
  obtain s1 where 1:
    "onAnalysisError sample_env (JObj [(''error'', JStr (str ''timeout''))]) streamed_page = Done s1"
    "\<not> isAnalyzing s1"
    "\<forall>i e. i \<noteq> ''resultsContent'' \<longrightarrow> elems streamed_page i = Some e \<longrightarrow>
       ''resultsContent'' \<in> set (anc e) \<longrightarrow> elems s1 i = None"
    by auto
  from 1(3) n have a: "elems s1 ''aiStreamContent'' = None"
    by (simp add: leaf_def)
  from 1(3) f have b: "elems s1 ''stockCodeDisplay'' = None"
    by (simp add: leaf_def)
  from analysis_error_discards [where s = streamed_page and E = sample_env and data = JNull]
  obtain s2 where 2: "onAnalysisError sample_env JNull streamed_page = Threw s2"
    "\<not> isAnalyzing s2" "elems s2 = elems streamed_page"
    by auto
  from 1(1,2) a b 2 n f r show ?thesis
    by (simp add: narrative_def threw_def leaf_def)
qed

text \<open>
  C9 as stated fails for an event without payload: on the page where \<open># T\<close> has streamed
  the handler throws, and the results area still holds the page fragment with the
  streamed narrative and the display fields, not the error panel.
\<close>

theorem analysis_error_discards_counterexample:
  "threw (onAnalysisError sample_env JUndef streamed_page) \<and>
   map_option content (elems (state_of (onAnalysisError sample_env JUndef streamed_page))
      ''resultsContent'') = Some (Tmpl ''result-content'' []) \<and>
   narrative (state_of (onAnalysisError sample_env JUndef streamed_page))
     = Some (Text (str ''# T'')) \<and>
   map_option content (elems (state_of (onAnalysisError sample_env JUndef streamed_page))
      ''stockCodeDisplay'') = Some (Text (str ''--''))"
  by (simp add: onAnalysisError_def threw_def narrative_def streamed_page_elems single_page_def
      field_ids_def leaf_def Let_def)

section \<open>Reconnecting\<close>

text \<open>
  C5, as the code has it. Every channel error arms one more timer, whatever is armed
  already: two errors in a row (the first leaves the browser reconnecting by itself, the
  second leaves it reconnecting or closes the channel) leave two timers armed. A timer
  that fires while the channel is connecting or open only disarms; one that fires while
  there is no channel or the channel is closed opens a new channel. So when the two
  timers of two errors have fired, with no other event in between, no channel has been
  opened if the second error left the browser reconnecting, and one channel, not two, if
  it closed the channel.
\<close>

theorem reconnect_timers:
  "timers (channel_error r s) = Suc (timers s) \<and>
   timers (channel_error r2 (channel_error r1 s)) = Suc (Suc (timers s)) \<and>
   (timers s \<noteq> 0 \<longrightarrow> sseConnection s \<noteq> None \<longrightarrow> sseConnection s \<noteq> Some CLOSED \<longrightarrow>
      timer_fires E s = s\<lparr>timers := timers s - 1\<rparr>) \<and>
   (timers s \<noteq> 0 \<longrightarrow> (sseConnection s = None \<or> sseConnection s = Some CLOSED) \<longrightarrow>
      sseConnection (timer_fires E s) = Some CONNECTING \<and>
      ids_drawn (timer_fires E s) = Suc (ids_drawn s) \<and>
      timers (timer_fires E s) = timers s - 1) \<and>
   (r2 \<noteq> CLOSED \<longrightarrow>
      timer_fires E (timer_fires E (channel_error r2 (channel_error r1 s)))
        = (channel_error r2 (channel_error r1 s))\<lparr>timers := timers s\<rparr>) \<and>
   ids_drawn (timer_fires E (timer_fires E (channel_error CLOSED (channel_error r1 s))))
     = Suc (ids_drawn s) \<and>
   sseConnection (timer_fires E (timer_fires E (channel_error CLOSED (channel_error r1 s))))
     = Some CONNECTING \<and>
   timers (timer_fires E (timer_fires E (channel_error CLOSED (channel_error r1 s))))
     = timers s"
  by (auto simp: channel_error_def timer_fires_def updateSSEStatus_def addLog_def initSSE_def
      Let_def split: nat.splits)

theorem reconnect_timers_witness:
  "timers (channel_error CLOSED open_page) \<noteq> 0 \<and>
   sseConnection (channel_error CLOSED open_page) = Some CLOSED \<and>
   sseConnection (timer_fires sample_env (channel_error CLOSED open_page)) = Some CONNECTING \<and>
   timers (timer_fires sample_env (channel_error CLOSED open_page)) = 0 \<and>
   timers (channel_error CONNECTING open_page) \<noteq> 0 \<and>
   sseConnection (channel_error CONNECTING open_page) = Some CONNECTING \<and>
   ids_drawn (timer_fires sample_env (channel_error CONNECTING open_page)) = ids_drawn open_page \<and>
   CONNECTING \<noteq> CLOSED \<and>
   ids_drawn (timer_fires sample_env (timer_fires sample_env
      (channel_error CONNECTING (channel_error CONNECTING open_page)))) = ids_drawn open_page \<and>
   ids_drawn (timer_fires sample_env (timer_fires sample_env
      (channel_error CLOSED (channel_error CONNECTING open_page)))) = Suc (ids_drawn open_page)"
proof -
  have a: "timers (channel_error CLOSED open_page) \<noteq> 0"
    "sseConnection (channel_error CLOSED open_page) = Some CLOSED"
    "timers (channel_error CONNECTING open_page) \<noteq> 0"
    "sseConnection (channel_error CONNECTING open_page) = Some CONNECTING"
    "timers open_page = 0"
    by (simp_all add: channel_error_def updateSSEStatus_def addLog_def open_page_def
        channel_open_def initSSE_def blank_page_def)
  from reconnect_timers [of CLOSED "channel_error CLOSED open_page" CONNECTING CONNECTING sample_env]
       reconnect_timers [of CLOSED "channel_error CONNECTING open_page" CONNECTING CONNECTING sample_env]
       reconnect_timers [of CLOSED open_page CONNECTING CONNECTING sample_env] a
  show ?thesis
    by (simp add: channel_error_def updateSSEStatus_def addLog_def)
qed

text \<open>
  C5 as stated fails: the channel was open, the connection is lost and the browser
  retries by itself, and a second error follows before the first timer has fired. Two
  timers are armed.
\<close>

theorem reconnect_timers_counterexample:
  "\<not> timers (channel_error CONNECTING (channel_error CONNECTING open_page)) \<le> 1"
  by (simp add: channel_error_def updateSSEStatus_def addLog_def open_page_def channel_open_def
        initSSE_def blank_page_def)

section \<open>Slot indices\<close>







lemmas id_defs = slot_id_def title_id_def financial_id_def news_id_def completeness_id_def
  card_id_def tabs_id_def value_prompt_id_def llm_prompt_id_def llm_results_id_def


section \<open>Frames of the batch view\<close>






lemma dec_small: "dec 0 = ''0''" "dec 1 = ''1''" "dec 2 = ''2''"
  by code_simp+

lemma batch_page_elems:
  "elems batch_page =
     [''resultsContent'' \<mapsto> leaf (Tmpl ''empty-state'' []) [],
      ''batchSlot0'' \<mapsto> (leaf (Tmpl ''slot'' []) [])\<lparr>classes := {''hidden''}\<rparr>,
      ''slotTitle0'' \<mapsto> leaf (Text []) [''batchSlot0''],
      ''financialCountBatch0'' \<mapsto> leaf (Text (str ''--'')) [''batchSlot0''],
      ''newsCountBatch0'' \<mapsto> leaf (Text (str ''--'')) [''batchSlot0''],
      ''completenessBatch0'' \<mapsto> leaf (Text (str ''--'')) [''batchSlot0''],
      ''batchResultsContent0'' \<mapsto> leaf (Text []) [''batchSlot0''],
      ''batchSlot1'' \<mapsto> (leaf (Tmpl ''slot'' []) [])\<lparr>classes := {''hidden''}\<rparr>,
      ''slotTitle1'' \<mapsto> leaf (Text []) [''batchSlot1''],
      ''financialCountBatch1'' \<mapsto> leaf (Text (str ''--'')) [''batchSlot1''],
      ''newsCountBatch1'' \<mapsto> leaf (Text (str ''--'')) [''batchSlot1''],
      ''completenessBatch1'' \<mapsto> leaf (Text (str ''--'')) [''batchSlot1''],
      ''batchResultsContent1'' \<mapsto> leaf (Text []) [''batchSlot1'']]"
  by (simp add: batch_page_def page_slot_def id_defs dec_small fun_eq_iff)
























text \<open>
  C7 fails on the batch path. For a report with a price and no technical analysis, as in
  the specification's example, \<open>showBatchSlot\<close> throws while it reads the technical fields
  and the card of the slot is never written; \<open>displayResults\<close>, for the same report,
  returns and shows the fallback for the trend.
\<close>

theorem batch_card_without_technical:
  "threw (showBatchSlot sample_env 0 sample_report batch_page) \<and>
   map_option content
     (elems (state_of (showBatchSlot sample_env 0 sample_report batch_page)) (card_id 0))
     = Some (Text []) \<and>
   \<not> threw (displayResults sample_env sample_report streamed_page) \<and>
   map_option content
     (elems (state_of (displayResults sample_env sample_report streamed_page)) ''trendDisplay'')
     = Some (Text (lbl_trend @ txt_unknown))"
  by (simp add: showBatchSlot_def batch_page_elems id_defs dec_small set_text_def put_content_def
        drop_inside_def unhide_def sample_report_def wrap_def path_def chain_def card_fields_def
        or_else_def leaf_def Let_def str_simps threw_def sample_env_def
        displayResults_def streamed_page_elems single_page_def field_ids_def textContent_def
        trim_def js_white_def mark_complete_def retitle_report_def parseMarkdown_def
        simpleMarkdownParse_def sample_regexes_def updateNonAIContent_def fixed_def percent_def)

section \<open>A second final result\<close>

lemma and_then_assoc: "and_then (and_then r f) g = and_then r (\<lambda>s. and_then (f s) g)"
  by (cases r) auto

lemma updateNonAIContent_steps:
  "updateNonAIContent E report s =
     and_then (write_all (field_writes E report) (write_status s)) (write_narrative E report)"
  by (simp add: updateNonAIContent_def field_writes_def write_status_def write_narrative_def
      and_then_assoc)


lemma settled_drop: "settled i (drop_inside i m)"
  by (auto simp: settled_def drop_inside_def split: option.splits if_splits)

lemma settled_drop_other: "settled k m \<Longrightarrow> settled k (drop_inside i m)"
  by (auto simp: settled_def drop_inside_def split: option.splits if_splits)

lemma settled_upd: "settled k m \<Longrightarrow> k \<notin> set (anc e) \<Longrightarrow> settled k (m(i \<mapsto> e))"
  by (auto simp: settled_def)

lemma drop_settled: "settled i m \<Longrightarrow> drop_inside i m = m"
  by (auto simp: settled_def drop_inside_def fun_eq_iff split: option.splits)

lemma put_content_idem:
  "elems s i = Some e \<Longrightarrow> content e = c \<Longrightarrow> settled i (elems s) \<Longrightarrow> put_content i e c s = s"
  by (simp add: put_content_def drop_settled fun_upd_idem)

lemma set_text_idem: "shows_text i t s \<Longrightarrow> set_text i (Some t) s = Done s"
  by (auto simp: shows_text_def set_text_def put_content_idem)

lemma set_text_Done:
  assumes "set_text i v s = Done s'"
  obtains e t where "elems s i = Some e" "v = Some t" "s' = put_content i e (Text t) s"
  using assms by (auto simp: set_text_def split: option.splits)

lemma flat_put:
  assumes "flat s" "elems s i = Some e0" "anc e = anc e0"
  shows "flat (put_content i e c s)"
  using assms
  by (auto simp: flat_def put_content_def drop_inside_def apart_def split: option.splits if_splits)

lemma shows_text_put:
  assumes "flat s" "i \<in> set view_ids" "elems s i = Some e"
  shows "shows_text i t (put_content i e (Text t) s)"
proof -
  from assms have "i \<notin> set (anc e)"
    by (auto simp: flat_def apart_def)
  then show ?thesis
    by (auto simp: shows_text_def put_content_def intro!: settled_upd settled_drop)
qed

lemma shows_text_put_other:
  assumes "flat s" "i \<in> set view_ids" "k \<in> set view_ids" "k \<noteq> i" "elems s k = Some e"
    "shows_text i t s"
  shows "shows_text i t (put_content k e c s)"
proof -
  from assms obtain x where x: "elems s i = Some x" "content x = Text t" "settled i (elems s)"
    by (auto simp: shows_text_def)
  from assms x have "k \<notin> set (anc x)" "i \<notin> set (anc e)"
    by (auto simp: flat_def apart_def)
  have "settled i (elems (put_content k e c s))"
    using x(3) \<open>i \<notin> set (anc e)\<close>
    by (auto simp: put_content_def intro!: settled_upd settled_drop_other)
  moreover have "elems (put_content k e c s) i = Some x"
    using x(1) assms(4) \<open>k \<notin> set (anc x)\<close>
    by (simp add: put_content_def drop_inside_def)
  ultimately show ?thesis
    using x(2) by (simp add: shows_text_def)
qed

lemma write_all_flat:
  "flat s \<Longrightarrow> write_all ws s = Done s' \<Longrightarrow> flat s'"
proof (induction ws arbitrary: s)
  case Nil
  then show ?case by simp
next
  case (Cons w ws)
  obtain i v where w: "w = (i, v)" by (cases w)
  from Cons.prems(2) w obtain s1 where 1: "set_text i v s = Done s1" "write_all ws s1 = Done s'"
    by (cases "set_text i v s") auto
  from 1(1) obtain e t where "elems s i = Some e" "s1 = put_content i e (Text t) s"
    by (rule set_text_Done)
  with Cons.prems(1) have "flat s1"
    by (auto intro: flat_put)
  with Cons.IH 1(2) show ?case by blast
qed

lemma write_all_keeps:
  "flat s \<Longrightarrow> i \<in> set view_ids \<Longrightarrow> fst ` set ws \<subseteq> set view_ids - {i} \<Longrightarrow>
   shows_text i t s \<Longrightarrow> write_all ws s = Done s' \<Longrightarrow> shows_text i t s'"
proof (induction ws arbitrary: s)
  case Nil
  then show ?case by simp
next
  case (Cons w ws)
  obtain k v where w: "w = (k, v)" by (cases w)
  from Cons.prems(5) w obtain s1 where 1: "set_text k v s = Done s1" "write_all ws s1 = Done s'"
    by (cases "set_text k v s") auto
  from 1(1) obtain e u where e: "elems s k = Some e" "s1 = put_content k e (Text u) s"
    by (rule set_text_Done)
  from Cons.prems w have k: "k \<in> set view_ids" "k \<noteq> i" by auto
  from Cons.prems(1) e have f: "flat s1"
    by (auto intro: flat_put)
  from shows_text_put_other [OF Cons.prems(1,2) k e(1) Cons.prems(4)] e
  have "shows_text i t s1" by simp
  with Cons.IH [OF f Cons.prems(2) _ _ 1(2)] Cons.prems(3) show ?case by auto
qed

lemma write_all_shown:
  "flat s \<Longrightarrow> distinct (map fst ws) \<Longrightarrow> fst ` set ws \<subseteq> set view_ids \<Longrightarrow>
   write_all ws s = Done s' \<Longrightarrow> \<forall>(i, v)\<in>set ws. \<exists>t. v = Some t \<and> shows_text i t s'"
proof (induction ws arbitrary: s)
  case Nil
  then show ?case by simp
next
  case (Cons w ws)
  obtain k v where w: "w = (k, v)" by (cases w)
  from Cons.prems(4) w obtain s1 where 1: "set_text k v s = Done s1" "write_all ws s1 = Done s'"
    by (cases "set_text k v s") auto
  from 1(1) obtain e u where e: "elems s k = Some e" "v = Some u" "s1 = put_content k e (Text u) s"
    by (rule set_text_Done)
  from Cons.prems w have k: "k \<in> set view_ids" "fst ` set ws \<subseteq> set view_ids - {k}"
    "distinct (map fst ws)" "fst ` set ws \<subseteq> set view_ids"
    by auto
  from Cons.prems(1) e have f: "flat s1"
    by (auto intro: flat_put)
  from shows_text_put [OF Cons.prems(1) k(1) e(1)] e have "shows_text k u s1" by simp
  from write_all_keeps [OF f k(1) k(2) this 1(2)] have "shows_text k u s'" .
  with Cons.IH [OF f k(3) k(4) 1(2)] e w show ?case by auto
qed

lemma write_all_idem:
  "\<forall>(i, v)\<in>set ws. \<exists>t. v = Some t \<and> shows_text i t s \<Longrightarrow> write_all ws s = Done s"
  by (induction ws) (auto simp: set_text_idem)


lemma flat_upd:
  assumes "flat s" "elems s i = Some e0" "anc e = anc e0"
  shows "flat (s\<lparr>elems := (elems s)(i \<mapsto> e)\<rparr>)"
  using assms by (auto simp: flat_def apart_def)

lemma put_content_other:
  "k \<noteq> i \<Longrightarrow>
   elems (put_content i e c s) k =
     (case elems s k of None \<Rightarrow> None | Some x \<Rightarrow> if i \<in> set (anc x) then None else Some x)"
  by (simp add: put_content_def drop_inside_def)

lemma write_all_other:
  "k \<notin> fst ` set ws \<Longrightarrow> fst ` set ws \<subseteq> set view_ids \<Longrightarrow> write_all ws s = Done s' \<Longrightarrow>
   (elems s k = None \<longrightarrow> elems s' k = None) \<and>
   (\<forall>x. elems s k = Some x \<longrightarrow> apart view_ids x \<longrightarrow> elems s' k = Some x)"
proof (induction ws arbitrary: s)
  case Nil
  then show ?case by simp
next
  case (Cons w ws)
  obtain i v where w: "w = (i, v)" by (cases w)
  from Cons.prems(3) w obtain s1 where 1: "set_text i v s = Done s1" "write_all ws s1 = Done s'"
    by (cases "set_text i v s") auto
  from 1(1) obtain e u where e: "elems s i = Some e" "s1 = put_content i e (Text u) s"
    by (rule set_text_Done)
  from Cons.prems w have k: "k \<noteq> i" "i \<in> set view_ids" "k \<notin> fst ` set ws"
    "fst ` set ws \<subseteq> set view_ids"
    by auto
  from k(1,2) e have "elems s k = None \<longrightarrow> elems s1 k = None"
    "\<forall>x. elems s k = Some x \<longrightarrow> apart view_ids x \<longrightarrow> elems s1 k = Some x"
    by (auto simp: put_content_other apart_def)
  with Cons.IH [OF k(3,4) 1(2)] show ?case by auto
qed

lemma view_ids_simps:
  "''aiStreamContent'' \<in> set view_ids" "''analysisStatus'' \<in> set view_ids"
  "fst ` set (field_writes E report) \<subseteq> set view_ids"
  "''aiStreamContent'' \<notin> fst ` set (field_writes E report)"
  "''analysisStatus'' \<notin> fst ` set (field_writes E report)"
  "distinct (map fst (field_writes E report))"
  by (simp_all add: view_ids_def field_ids_def field_writes_def)


lemma and_then_Done:
  assumes "and_then r f = Done s'"
  obtains s1 where "r = Done s1" "f s1 = Done s'"
  using assms by (cases r) auto

lemma update_post:
  assumes f: "flat s" and x: "elems s ''aiStreamContent'' = Some x"
    and u: "updateNonAIContent E report s = Done s'"
    and v: "field report ''ai_content'' = Some v" "truthy v"
  shows "finalized E report s'"
    and "elems s' ''aiStreamContent'' = Some (x\<lparr>content := Text (tostr E v)\<rparr>)"
proof -
  let ?ai = "''aiStreamContent''" and ?st = "''analysisStatus''"
  let ?fw = "field_writes E report"
  from u obtain sw where sw: "write_all ?fw (write_status s) = Done sw"
    and n: "write_narrative E report sw = Done s'"
    unfolding updateNonAIContent_steps by (rule and_then_Done)
  from f x have ax: "apart view_ids x"
    by (auto simp: flat_def view_ids_simps)
  then have nx: "?st \<notin> set (anc x)" "?ai \<notin> set (anc x)"
    using view_ids_simps(1,2) by (auto simp: apart_def)
  have f0: "flat (write_status s)"
    using f by (auto simp: write_status_def intro: flat_put split: option.splits)
  have x0: "elems (write_status s) ?ai = Some x"
    using x nx by (auto simp: write_status_def put_content_other split: option.splits)
  have st0: "elems (write_status s) ?st = None \<or> shows_text ?st status_done (write_status s)"
    using f by (auto simp: write_status_def view_ids_simps intro: shows_text_put split: option.splits)
  from write_all_flat [OF f0 sw] have fw: "flat sw" .
  from write_all_other [OF view_ids_simps(4) view_ids_simps(3) sw] x0 ax
  have xw: "elems sw ?ai = Some x" by blast
  from n v xw have s': "s' = put_content ?ai x (Text (tostr E v)) sw"
    by (simp add: write_narrative_def set_text_def)
  from st0 have stw: "elems sw ?st = None \<or> shows_text ?st status_done sw"
  proof
    assume "elems (write_status s) ?st = None"
    with write_all_other [OF view_ids_simps(5) view_ids_simps(3) sw] show ?thesis by blast
  next
    assume "shows_text ?st status_done (write_status s)"
    from write_all_keeps [OF f0 view_ids_simps(2) _ this sw] view_ids_simps(3,5) [of E report]
    show ?thesis by blast
  qed
  from write_all_shown [OF f0 view_ids_simps(6) view_ids_simps(3) sw]
  have shw: "\<forall>(i, u)\<in>set ?fw. \<exists>t. u = Some t \<and> shows_text i t sw" .
  have sh: "\<forall>(i, u)\<in>set ?fw. \<exists>t. u = Some t \<and> shows_text i t s'"
  proof (clarify)
    fix i u assume iu: "(i, u) \<in> set ?fw"
    with shw obtain t where t: "u = Some t" "shows_text i t sw" by blast
    from iu view_ids_simps(3,4) [of E report] have "i \<in> set view_ids" "?ai \<noteq> i"
      by (auto simp: image_iff) 
    from shows_text_put_other [OF fw this(1) view_ids_simps(1) this(2) xw t(2)] t(1) s'
    show "\<exists>t. u = Some t \<and> shows_text i t s'" by simp
  qed
  have st: "elems s' ?st = None \<or> shows_text ?st status_done s'"
    using stw
  proof
    assume "elems sw ?st = None"
    then show ?thesis by (simp add: s' put_content_other)
  next
    assume "shows_text ?st status_done sw"
    from shows_text_put_other [OF fw view_ids_simps(2) view_ids_simps(1) _ xw this] s'
    show ?thesis by simp
  qed
  have "settled ?ai (elems s')"
    using nx by (auto simp: s' put_content_def intro!: settled_upd settled_drop)
  moreover have "flat s'"
    unfolding s' using fw xw by (auto intro: flat_put)
  ultimately show "finalized E report s'"
    using sh st by (simp add: finalized_def)
  show "elems s' ?ai = Some (x\<lparr>content := Text (tostr E v)\<rparr>)"
    by (simp add: s' put_content_def)
qed


lemma update_again:
  assumes fin: "finalized E report s"
    and y: "elems s ''aiStreamContent'' = Some y" "content y = Text (tostr E v)"
    and v: "field report ''ai_content'' = Some v" "truthy v"
  shows "updateNonAIContent E report (put_content ''aiStreamContent'' y c s) = Done s"
proof -
  let ?ai = "''aiStreamContent''" and ?st = "''analysisStatus''"
  let ?fw = "field_writes E report"
  define p where "p = put_content ?ai y c s"
  from fin have f: "flat s" and sa: "settled ?ai (elems s)"
    and sh: "\<forall>(i, u)\<in>set ?fw. \<exists>t. u = Some t \<and> shows_text i t s"
    and st: "elems s ?st = None \<or> shows_text ?st status_done s"
    by (auto simp: finalized_def)
  from f y have "apart view_ids y"
    by (auto simp: flat_def view_ids_simps)
  then have ny: "?ai \<notin> set (anc y)"
    using view_ids_simps(1) by (auto simp: apart_def)
  have p: "p = s\<lparr>elems := (elems s)(?ai \<mapsto> y\<lparr>content := c\<rparr>)\<rparr>"
    by (simp add: p_def put_content_def drop_settled sa)
  have sp: "settled ?ai (elems p)"
    using ny by (auto simp: p_def put_content_def intro!: settled_upd settled_drop)
  have ws: "write_status p = p"
    using st
  proof
    assume "elems s ?st = None"
    then show ?thesis by (simp add: write_status_def p)
  next
    assume "shows_text ?st status_done s"
    from shows_text_put_other [OF f view_ids_simps(2) view_ids_simps(1) _ y(1) this]
    have "shows_text ?st status_done p" by (simp add: p_def)
    then show ?thesis
      by (auto simp: write_status_def shows_text_def put_content_idem split: option.splits)
  qed
  have "\<forall>(i, u)\<in>set ?fw. \<exists>t. u = Some t \<and> shows_text i t p"
  proof (clarify)
    fix i u assume iu: "(i, u) \<in> set ?fw"
    with sh obtain t where t: "u = Some t" "shows_text i t s" by blast
    from iu view_ids_simps(3,4) [of E report] have "i \<in> set view_ids" "?ai \<noteq> i"
      by (auto simp: image_iff)
    from shows_text_put_other [OF f this(1) view_ids_simps(1) this(2) y(1) t(2)] t(1)
    show "\<exists>t. u = Some t \<and> shows_text i t p" by (simp add: p_def)
  qed
  then have wa: "write_all ?fw p = Done p"
    by (rule write_all_idem)
  have yt: "y\<lparr>content := Text (tostr E v)\<rparr> = y"
    using y(2) by simp
  have "put_content ?ai (y\<lparr>content := c\<rparr>) (Text (tostr E v)) p
      = p\<lparr>elems := (elems p)(?ai \<mapsto> y\<lparr>content := Text (tostr E v)\<rparr>)\<rparr>"
    by (simp add: put_content_def drop_settled sp)
  also have "\<dots> = s"
    using y(1) by (simp add: p yt fun_upd_idem)
  finally have "put_content ?ai (y\<lparr>content := c\<rparr>) (Text (tostr E v)) p = s" .
  moreover have "elems p ?ai = Some (y\<lparr>content := c\<rparr>)"
    by (simp add: p)
  ultimately have "write_narrative E report p = Done s"
    using v by (simp add: write_narrative_def set_text_def)
  with ws wa show ?thesis
    by (simp add: updateNonAIContent_steps p_def [symmetric])
qed

lemma mark_complete_idem:
  "content e = Text t \<Longrightarrow> heading (mark_complete E e0) = heading e \<Longrightarrow> mark_complete E e = e"
  by (cases "heading e0"; cases "heading e")
    (auto simp: mark_complete_def split: option.splits content.splits)

lemma second_final_same:
  assumes f: "flat s0" and c: "carries_narrative report"
    and d: "displayResults E report s0 = Done s1"
  shows "state_of (displayResults E report s1) = s1"
proof (cases "elems s0 ''aiStreamContent''")
  case None
  with d show ?thesis by (simp add: displayResults_def)
next
  case (Some e)
  let ?ai = "''aiStreamContent''"
  from c obtain v where v: "field report ''ai_content'' = Some v" "truthy v"
    by (auto simp: carries_narrative_def split: option.splits)
  show ?thesis
  proof (cases "trim (textContent E (content e)) = []")
    case True
    with d Some show ?thesis by (simp add: displayResults_def)
  next
    case False
    let ?e1 = "retitle_report E (mark_complete E e)"
    let ?s0 = "s0\<lparr>elems := (elems s0)(?ai \<mapsto> ?e1)\<rparr>"
    let ?e2 = "?e1\<lparr>classes := insert ''ai-analysis-content'' (classes ?e1),
                   whiteSpace := Some ''normal''\<rparr>"
    have a1: "anc ?e1 = anc e"
      by (auto simp: retitle_report_def mark_complete_def split: option.splits content.splits)
    have h1: "heading ?e1 = heading (mark_complete E e)"
      by (auto simp: retitle_report_def split: option.splits content.splits)
    from d Some False obtain m where
      u: "updateNonAIContent E report (put_content ?ai ?e2 (Html m) ?s0) = Done s1"
      by (auto simp: displayResults_def Let_def split: option.splits)
    have f0: "flat ?s0"
      using f Some a1 by (rule flat_upd)
    have fp: "flat (put_content ?ai ?e2 (Html m) ?s0)"
      by (rule flat_put [OF f0, where ?e0.0 = ?e1]) (simp_all add: a1)
    have xp: "elems (put_content ?ai ?e2 (Html m) ?s0) ?ai = Some (?e2\<lparr>content := Html m\<rparr>)"
      by (simp add: put_content_def)
    define y where "y = ?e2\<lparr>content := Text (tostr E v)\<rparr>"
    from update_post [OF fp xp u v]
    have fin: "finalized E report s1" and y: "elems s1 ?ai = Some y"
      by (simp_all add: y_def)
    have cy: "content y = Text (tostr E v)"
      by (simp add: y_def)
    have my: "mark_complete E y = y"
      by (rule mark_complete_idem [where t = "tostr E v" and ?e0.0 = e]) (simp_all add: h1 y_def)
    have ry: "retitle_report E y = y"
      by (simp add: retitle_report_def cy)
    have idem: "s1\<lparr>elems := (elems s1)(?ai \<mapsto> y)\<rparr> = s1"
      using y by (simp add: fun_upd_idem)
    have yy: "y\<lparr>classes := insert ''ai-analysis-content'' (classes y),
                whiteSpace := Some ''normal''\<rparr> = y"
      by (simp add: y_def)
    show ?thesis
    proof (cases "trim (tostr E v) = []")
      case True
      with y cy show ?thesis by (simp add: displayResults_def textContent_def)
    next
      case False
      show ?thesis
      proof (cases "parseMarkdown E (JStr (tostr E v))")
        case None
        with y cy False show ?thesis
          by (simp add: displayResults_def textContent_def Let_def my ry idem del: fun_upd_apply)
      next
        case (Some m2)
        from update_again [OF fin y cy v, of "Html m2"]
        have "updateNonAIContent E report (put_content ?ai y (Html m2) s1) = Done s1" .
        with y cy False Some show ?thesis
          by (simp add: displayResults_def textContent_def Let_def my ry idem yy del: fun_upd_apply)
      qed
    qed
  qed
qed

lemma displayResults_rerender:
  assumes "elems s ''aiStreamContent'' = Some e" "apart field_ids e" "heading e = Some h"
    "content e = Html m" "\<not> carries_narrative report"
  shows "narrative (state_of (displayResults E report s)) =
     (if trim (domText E (Html m)) = [] then Some (Html m)
      else (let m' = (case retitle E ''h2'' title_report m of Some x \<Rightarrow> x | None \<Rightarrow> m)
            in case parseMarkdown E (JStr (domText E (Html m'))) of
                 Some m2 \<Rightarrow> Some (Html m2)
               | None \<Rightarrow> Some (Html m')))"
proof -
  define e1 where "e1 = retitle_report E (mark_complete E e)"
  have c: "content e1 = Html (case retitle E ''h2'' title_report m of Some x \<Rightarrow> x | None \<Rightarrow> m)"
    using assms(3,4) by (auto simp: e1_def retitle_report_def mark_complete_def split: option.splits)
  have a: "anc e1 = anc e"
    by (auto simp: e1_def retitle_report_def mark_complete_def split: option.splits content.splits)
  show ?thesis
  proof (cases "trim (domText E (Html m)) = []")
    case True
    with assms show ?thesis
      by (simp add: displayResults_def narrative_def textContent_def)
  next
    case False
    show ?thesis
    proof (cases "parseMarkdown E (JStr (domText E (content e1)))")
      case None
      with assms False c show ?thesis
        by (simp add: displayResults_def narrative_def textContent_def Let_def e1_def [symmetric])
    next
      case (Some m2)
      let ?e2 = "e1\<lparr>classes := insert ''ai-analysis-content'' (classes e1),
             whiteSpace := Some ''normal'', content := Html m2\<rparr>"
      have "elems (state_of (updateNonAIContent E report
           (put_content ''aiStreamContent''
              (e1\<lparr>classes := insert ''ai-analysis-content'' (classes e1), whiteSpace := Some ''normal''\<rparr>)
              (Html m2) (s\<lparr>elems := (elems s)(''aiStreamContent'' \<mapsto> e1)\<rparr>)))) ''aiStreamContent''
         = Some ?e2"
        by (rule updateNonAIContent_keeps)
          (use assms a in \<open>simp_all add: apart_def put_content_def\<close>)
      with assms False c Some show ?thesis
        by (simp add: displayResults_def narrative_def textContent_def Let_def e1_def [symmetric])
    qed
  qed
qed

lemma rendered_page_narrative:
  "elems rendered_page ''aiStreamContent'' =
     Some \<lparr>content = Html heading_markup, classes = {''ai-analysis-content''},
           whiteSpace = Some ''normal'', heading = Some (Html title_done), wired = False,
           anc = [''resultsContent'']\<rparr>"
  by (simp add: rendered_page_def heading_markup_def
        sample_report_def wrap_def chain_def
        or_else_def leaf_def Let_def str_simps sample_env_def put_content_def drop_inside_def
        displayResults_def streamed_page_elems single_page_def field_ids_def textContent_def
        trim_def js_white_def mark_complete_def retitle_report_def parseMarkdown_def
        simpleMarkdownParse_def sample_regexes_def updateNonAIContent_def fixed_def percent_def set_text_def)

lemma sample_rerender:
  "domText sample_env (Html heading_markup) = str ''T''"
  "trim (str ''T'') \<noteq> []"
  "retitle sample_env ''h2'' title_report heading_markup = None"
  "parseMarkdown sample_env (JStr (str ''T'')) = Some (str ''T'')"
  "heading_markup \<noteq> str ''T''"
  by (simp_all add: sample_env_def heading_markup_def str_simps trim_def js_white_def
      parseMarkdown_def simpleMarkdownParse_def sample_regexes_def)

lemma sample_report_plain: "\<not> carries_narrative sample_report"
  by (simp add: carries_narrative_def sample_report_def)

lemma streamed_page_flat: "flat streamed_page"
  by (simp add: flat_def view_ids_def field_ids_def streamed_page_elems single_page_def apart_def
      leaf_def)

lemma narrated_page_Done:
  "displayResults sample_env narrated_report streamed_page = Done narrated_page"
  "narrative narrated_page = Some (Text (str ''AB''))"
  unfolding narrated_page_def narrative_def
  by (simp_all add: narrated_report_def wrap_def chain_def
        or_else_def leaf_def Let_def str_simps sample_env_def put_content_def drop_inside_def
        displayResults_def streamed_page_elems single_page_def field_ids_def textContent_def
        trim_def js_white_def mark_complete_def retitle_report_def parseMarkdown_def
        simpleMarkdownParse_def sample_regexes_def updateNonAIContent_def fixed_def percent_def set_text_def)

text \<open>
  C2, as the code has it. A second \<open>final_result\<close> with the same report runs the whole
  finalisation again on what the container shows by then. If the report brings its own
  narrative, the page is flat and the first event returned, the second event leaves the
  whole view exactly as the first left it. If the report brings none, the second event
  renders the text the browser reads back from the first rendering (its first \<open>h2\<close>
  retitled): the narrative becomes the rendering of that text; it stays as it is when that
  text is blank, and keeps the retitled markup when the renderer throws.
\<close>

theorem second_final:
  "(flat s0 \<longrightarrow> carries_narrative report \<longrightarrow> displayResults E report s0 = Done s1 \<longrightarrow>
      state_of (displayResults E report s1) = s1) \<and>
   (elems s1 ''aiStreamContent'' = Some e \<longrightarrow> apart field_ids e \<longrightarrow> heading e \<noteq> None \<longrightarrow>
    content e = Html m \<longrightarrow> \<not> carries_narrative report \<longrightarrow>
      narrative (state_of (displayResults E report s1)) =
        (if trim (domText E (Html m)) = [] then Some (Html m)
         else (let m' = (case retitle E ''h2'' title_report m of Some x \<Rightarrow> x | None \<Rightarrow> m)
               in case parseMarkdown E (JStr (domText E (Html m'))) of
                    Some m2 \<Rightarrow> Some (Html m2)
                  | None \<Rightarrow> Some (Html m'))))"
  using second_final_same [of s0 report E s1] displayResults_rerender [of s1 e _ m report E]
  by auto

theorem second_final_witness:
  "flat streamed_page \<and> carries_narrative narrated_report \<and>
   displayResults sample_env narrated_report streamed_page = Done narrated_page \<and>
   narrative narrated_page = Some (Text (str ''AB'')) \<and>
   state_of (displayResults sample_env narrated_report narrated_page) = narrated_page \<and>
   narrative rendered_page = Some (Html heading_markup) \<and>
   narrative (state_of (displayResults sample_env sample_report rendered_page))
     = Some (Html (str ''T''))"
proof -
  have c: "carries_narrative narrated_report"
    by (simp add: carries_narrative_def narrated_report_def str_simps)
  have a: "apart field_ids \<lparr>content = Html heading_markup, classes = {''ai-analysis-content''},
           whiteSpace = Some ''normal'', heading = Some (Html title_done), wired = False,
           anc = [''resultsContent'']\<rparr>"
    by (simp add: apart_def field_ids_def)
  have n: "narrative rendered_page = Some (Html heading_markup)"
    by (simp add: narrative_def rendered_page_narrative)
  from second_final [where ?s0.0 = streamed_page and report = narrated_report and E = sample_env
      and ?s1.0 = narrated_page]
    streamed_page_flat c narrated_page_Done(1)
  have 1: "state_of (displayResults sample_env narrated_report narrated_page) = narrated_page"
    by blast
  from second_final [where ?s1.0 = rendered_page and report = sample_report and E = sample_env
      and m = heading_markup, THEN conjunct2, rule_format, OF rendered_page_narrative a _ _
      sample_report_plain]
  have 2: "narrative (state_of (displayResults sample_env sample_report rendered_page))
     = Some (Html (str ''T''))"
    by (simp add: sample_rerender)
  from 1 2 n c streamed_page_flat narrated_page_Done show ?thesis
    by simp
qed

text \<open>
  C2 as stated fails: the narrative \<open># T\<close> is rendered to a heading by the first final
  result and to the bare text \<open>T\<close> by the second.
\<close>

theorem second_final_counterexample:
  "narrative (state_of (displayResults sample_env sample_report rendered_page))
     \<noteq> narrative rendered_page"
proof -
  have "apart field_ids \<lparr>content = Html heading_markup, classes = {''ai-analysis-content''},
           whiteSpace = Some ''normal'', heading = Some (Html title_done), wired = False,
           anc = [''resultsContent'']\<rparr>"
    by (simp add: apart_def field_ids_def)
  from displayResults_rerender [OF rendered_page_narrative this _ _ sample_report_plain,
      of "Html title_done" heading_markup sample_env]
  have "narrative (state_of (displayResults sample_env sample_report rendered_page))
      = Some (Html (str ''T''))"
    by (simp add: sample_rerender)
  moreover have "narrative rendered_page = Some (Html heading_markup)"
    by (simp add: narrative_def rendered_page_narrative)
  ultimately show ?thesis
    using sample_rerender(5) by auto
qed

section \<open>The fallbacks of the final path\<close>

text \<open>
  On the single-job path the fallbacks hold in general: for a report without price,
  technical and sentiment parts, on a flat page with the display fields,
  \<open>updateNonAIContent\<close> returns and every field shows its fallback.
\<close>

lemma fallback_writes:
  assumes "map_of kvs ''price_info'' = None" "map_of kvs ''technical_analysis'' = None"
    "map_of kvs ''sentiment_analysis'' = None"
  shows "field_writes E (JObj kvs) =
     [(''stockCodeDisplay'',
         Some (lbl_code @ tostr E (case map_of kvs ''stock_code'' of Some v \<Rightarrow> v | None \<Rightarrow> JUndef))),
      (''currentPriceDisplay'', Some (lbl_price @ toFixed E 2 (Fin 0))),
      (''priceChangeDisplay'', Some (lbl_change @ toFixed E 2 (Fin 0) @ str ''%'')),
      (''rsiDisplay'', Some (str ''RSI: '' @ toFixed E 1 (Fin 0))),
      (''trendDisplay'', Some (lbl_trend @ txt_unknown)),
      (''macdDisplay'', Some (str ''MACD: '' @ txt_unknown)),
      (''sentimentTrendDisplay'', Some (lbl_sentiment @ txt_neutral)),
      (''newsCountDisplay'', Some (lbl_news @ numToString E (Fin 0) @ sfx_news)),
      (''confidenceDisplay'', Some (lbl_confidence @ toFixed E 1 (Fin 0) @ str ''%''))]"
  using assms
  by (simp add: field_writes_def wrap_def chain_def fixed_def or_else_def percent_def)

lemma write_all_total:
  "flat s \<Longrightarrow> distinct (map fst ws) \<Longrightarrow> fst ` set ws \<subseteq> set view_ids \<Longrightarrow>
   \<forall>(i, v)\<in>set ws. v \<noteq> None \<and> elems s i \<noteq> None \<Longrightarrow> \<exists>s'. write_all ws s = Done s'"
proof (induction ws arbitrary: s)
  case Nil
  then show ?case by simp
next
  case (Cons w ws)
  obtain i v where w: "w = (i, v)" by (cases w)
  from Cons.prems w obtain t e where e: "v = Some t" "elems s i = Some e"
    by auto
  let ?s = "put_content i e (Text t) s"
  from e have 1: "set_text i v s = Done ?s"
    by (simp add: set_text_def)
  from Cons.prems(1) e have f: "flat ?s"
    by (auto intro: flat_put)
  have "\<forall>(j, u)\<in>set ws. u \<noteq> None \<and> elems ?s j \<noteq> None"
  proof (clarify)
    fix j u assume ju: "(j, u) \<in> set ws"
    with Cons.prems(2,3,4) w obtain x where x: "j \<noteq> i" "j \<in> set view_ids" "i \<in> set view_ids"
      "u \<noteq> None" "elems s j = Some x"
      by (fastforce simp: image_iff)
    with Cons.prems(1) have "i \<notin> set (anc x)"
      by (auto simp: flat_def apart_def)
    with x show "u \<noteq> None \<and> elems ?s j \<noteq> None"
      by (simp add: put_content_other)
  qed
  with Cons.IH [OF f] Cons.prems(2,3) w obtain s' where "write_all ws ?s = Done s'"
    by auto
  with 1 w show ?case by simp
qed

lemma final_report_fallbacks:
  assumes f: "flat s"
    and p: "\<forall>i\<in>fst ` set (field_writes E (JObj kvs)). elems s i \<noteq> None"
    and m: "map_of kvs ''price_info'' = None" "map_of kvs ''technical_analysis'' = None"
      "map_of kvs ''sentiment_analysis'' = None"
    and n: "\<not> carries_narrative (JObj kvs)"
  shows "\<exists>s'. updateNonAIContent E (JObj kvs) s = Done s' \<and>
     shows_text ''currentPriceDisplay'' (lbl_price @ toFixed E 2 (Fin 0)) s' \<and>
     shows_text ''rsiDisplay'' (str ''RSI: '' @ toFixed E 1 (Fin 0)) s' \<and>
     shows_text ''trendDisplay'' (lbl_trend @ txt_unknown) s' \<and>
     shows_text ''macdDisplay'' (str ''MACD: '' @ txt_unknown) s' \<and>
     shows_text ''sentimentTrendDisplay'' (lbl_sentiment @ txt_neutral) s' \<and>
     shows_text ''newsCountDisplay'' (lbl_news @ numToString E (Fin 0) @ sfx_news) s' \<and>
     shows_text ''confidenceDisplay'' (lbl_confidence @ toFixed E 1 (Fin 0) @ str ''%'') s'"
proof -
  let ?fw = "field_writes E (JObj kvs)"
  have f0: "flat (write_status s)"
    using f by (auto simp: write_status_def intro: flat_put split: option.splits)
  have "\<forall>(i, v)\<in>set ?fw. v \<noteq> None \<and> elems (write_status s) i \<noteq> None"
  proof (clarify)
    fix i v assume iv: "(i, v) \<in> set ?fw"
    then have i: "i \<in> fst ` set ?fw" by (force simp: image_iff)
    with p obtain x where "elems s i = Some x" by blast
    moreover from i view_ids_simps(3) [of E "JObj kvs"] have "i \<in> set view_ids" by blast
    moreover from i view_ids_simps(5) [of E "JObj kvs"] have "i \<noteq> ''analysisStatus''" by blast
    ultimately have x: "elems s i = Some x" "i \<in> set view_ids" "i \<noteq> ''analysisStatus''"
      by simp_all
    with f have "''analysisStatus'' \<notin> set (anc x)"
      using view_ids_simps(2) by (auto simp: flat_def apart_def)
    with x have "elems (write_status s) i \<noteq> None"
      by (auto simp: write_status_def put_content_other split: option.splits)
    moreover from iv have "v \<noteq> None"
      unfolding fallback_writes [OF m] by auto
    ultimately show "v \<noteq> None \<and> elems (write_status s) i \<noteq> None" by simp
  qed
  from write_all_total [OF f0 view_ids_simps(6) view_ids_simps(3) this]
  obtain s' where s': "write_all ?fw (write_status s) = Done s'" by blast
  from write_all_shown [OF f0 view_ids_simps(6) view_ids_simps(3) s']
  have "\<forall>(i, v)\<in>set ?fw. \<exists>t. v = Some t \<and> shows_text i t s'" .
  then have sh: "\<forall>(i, v)\<in>set ?fw. shows_text i (the v) s'"
    by auto
  from n have "write_narrative E (JObj kvs) s' = Done s'"
    by (auto simp: write_narrative_def carries_narrative_def)
  with s' have "updateNonAIContent E (JObj kvs) s = Done s'"
    by (simp add: updateNonAIContent_steps)
  with sh show ?thesis
    unfolding fallback_writes [OF m] by simp
qed

end
